theory Spec2Isabelle
  imports Main
begin

section \<open>Capability-server discovery: \<^verbatim>\<open>src/core/mcp/mcp-client.js\<close>\<close>

text \<open>
  The module keeps three pieces of process-wide state (the status map, the discovery
  phase, the listener array) and talks to four collaborators: the protocol SDK
  (client and transports), the \<^verbatim>\<open>shell-quote\<close> tokenizer, the console and the tool
  registry it is handed. The model keeps the module's state and the registry's map in
  one record and writes every call on a collaborator into a chronological
  \<open>trace\<close>, so that claims about what was called, with what and in which order are
  statements about that trace.
\<close>

subsection \<open>Values\<close>

datatype MCPServerStatus = DISCONNECTED | CONNECTING | CONNECTED

datatype MCPDiscoveryState = NOT_STARTED | IN_PROGRESS | COMPLETED

text \<open>A thrown JavaScript value: \<^verbatim>\<open>new Error(message)\<close> or a \<^verbatim>\<open>TypeError\<close> of the runtime.\<close>

datatype js_error = Error string | TypeError string

fun message :: "js_error \<Rightarrow> string" where
  "message (Error m) = m"
| "message (TypeError m) = m"

text \<open>\<^verbatim>\<open>String(error)\<close>, which is what a template literal \<^verbatim>\<open>`${error}`\<close> inserts.\<close>

fun error_toString :: "js_error \<Rightarrow> string" where
  "error_toString (Error m) = (if m = [] then ''Error'' else ''Error: '' @ m)"
| "error_toString (TypeError m) = (if m = [] then ''TypeError'' else ''TypeError: '' @ m)"

text \<open>\<^verbatim>\<open>error.message || error\<close> inside a template literal.\<close>

definition message_or_error :: "js_error \<Rightarrow> string" where
  "message_or_error e = (if message e \<noteq> [] then message e else error_toString e)"

datatype json =
    JNull | JBool bool | JNum int | JStr string | JArr "json list" | JObj "(string \<times> json) list"

text \<open>Truthiness of an optional string field: \<^verbatim>\<open>undefined\<close> and \<^verbatim>\<open>''\<close> are falsy.\<close>

fun truthy :: "string option \<Rightarrow> bool" where
  "truthy None = False"
| "truthy (Some s) = (s \<noteq> [])"

subsection \<open>Server descriptors and tools\<close>

record MCPServerConfig =
  httpUrl :: "string option"
  url :: "string option"
  command :: "string option"
  args :: "string list option"
  env :: "(string \<rightharpoonup> string) option"
  cwd :: "string option"
  headers :: "(string \<times> string) list option"
  timeout :: "int option"
  includeTools :: "string list option"
  excludeTools :: "string list option"

text \<open>A descriptor with every field \<^verbatim>\<open>undefined\<close>.\<close>

definition no_config :: MCPServerConfig where
  "no_config = \<lparr> httpUrl = None, url = None, command = None, args = None, env = None,
     cwd = None, headers = None, timeout = None, includeTools = None, excludeTools = None \<rparr>"

definition MCP_DEFAULT_TIMEOUT_MSEC :: int where
  "MCP_DEFAULT_TIMEOUT_MSEC = 10 * 60 * 1000"

text \<open>\<^verbatim>\<open>mcpServerConfig.timeout ?? MCP_DEFAULT_TIMEOUT_MSEC\<close>: only a missing timeout
  takes the default, a timeout of 0 stays 0.\<close>

definition timeout_or_default :: "MCPServerConfig \<Rightarrow> int" where
  "timeout_or_default cfg =
     (case timeout cfg of None \<Rightarrow> MCP_DEFAULT_TIMEOUT_MSEC | Some t \<Rightarrow> t)"

text \<open>
  The client made by \<^verbatim>\<open>new Client(...)\<close> in \<^verbatim>\<open>connectToMcpServer\<close>. Each server gets
  its own, so it is identified by the server's name; \<open>callTool_timeout\<close> is the timeout
  captured by the closure that replaces its \<^verbatim>\<open>callTool\<close>.
\<close>

record Client =
  client_of :: string
  callTool_timeout :: int

text \<open>One entry of \<^verbatim>\<open>tool.functionDeclarations\<close>.\<close>

record FunctionDeclaration =
  fd_name :: "string option"
  fd_description :: "string option"
  fd_parametersJsonSchema :: "json option"

text \<open>\<^verbatim>\<open>class DiscoveredMCPTool\<close>; \<open>tool_client\<close> is the client behind
  \<^verbatim>\<open>mcpCallableTool\<close>.\<close>

record DiscoveredMCPTool =
  tool_client :: Client
  tool_serverName :: string
  tool_name :: "string option"
  tool_description :: string
  tool_schema :: json
  tool_timeout :: int

subsection \<open>Module state and the trace of outside calls\<close>

text \<open>
  A listener is a callback of the embedding application (the repository itself
  subscribes none); the model names it by a handle and records each call of it. A
  listener is taken to return normally and to leave the listener array alone while it
  is being notified.
\<close>

type_synonym listener = nat

record request_options =
  opt_timeout :: "int option"

record StdioParams =
  stdio_command :: string
  stdio_args :: "string list"
  stdio_env :: "string \<rightharpoonup> string"
  stdio_cwd :: "string option"

text \<open>The two HTTP transports take the URL and \<^verbatim>\<open>transportOptions.requestInit.headers\<close>,
  which is absent when the descriptor has no headers.\<close>

datatype transport =
    StreamableHTTPClientTransport string "(string \<times> string) list option"
  | SSEClientTransport string "(string \<times> string) list option"
  | StdioClientTransport StdioParams

text \<open>
  The trace. \<open>StatusSet\<close> and \<open>DiscoveryStateSet\<close> record the writes to the module's
  own variables; the others are calls that leave the module: a listener, the console,
  \<^verbatim>\<open>mcpClient.connect(transport, options)\<close>, \<^verbatim>\<open>transport.close()\<close>,
  \<^verbatim>\<open>mcpClient.close()\<close>, the assignment of \<^verbatim>\<open>mcpClient.onerror\<close>,
  \<^verbatim>\<open>mcpClient.request\<close> (with the method, the parameters and the options argument, if
  any) and \<^verbatim>\<open>toolRegistry.registerTool(tool)\<close>. A client or transport is named by its
  server.
\<close>

datatype event =
    StatusSet string MCPServerStatus
  | ListenerCalled listener string MCPServerStatus
  | ConsoleError string
  | ConsoleWarn string
  | ConsoleLog string
  | ClientConnect string transport request_options
  | TransportClose string
  | ClientClose string
  | OnErrorSet string
  | ClientRequest string string "(string \<times> json) list" "request_options option"
  | RegisterToolCalled DiscoveredMCPTool
  | DiscoveryStateSet MCPDiscoveryState

record mcp_state =
  mcpServerStatusesInternal :: "string \<rightharpoonup> MCPServerStatus"
  mcpDiscoveryState :: MCPDiscoveryState
  statusChangeListeners :: "listener list"
  registry_tools :: "string option \<rightharpoonup> DiscoveredMCPTool"
  trace :: "event list"

text \<open>The state right after the module is loaded, with an empty registry.\<close>

definition initial_state :: mcp_state where
  "initial_state = \<lparr> mcpServerStatusesInternal = Map.empty, mcpDiscoveryState = NOT_STARTED,
     statusChangeListeners = [], registry_tools = Map.empty, trace = [] \<rparr>"

definition emit :: "event \<Rightarrow> mcp_state \<Rightarrow> mcp_state" where
  "emit e s = s\<lparr> trace := trace s @ [e] \<rparr>"

subsection \<open>Server Status Registry\<close>

definition addMCPStatusChangeListener :: "listener \<Rightarrow> mcp_state \<Rightarrow> mcp_state" where
  "addMCPStatusChangeListener l s = s\<lparr> statusChangeListeners := statusChangeListeners s @ [l] \<rparr>"

text \<open>\<^verbatim>\<open>indexOf\<close> then \<^verbatim>\<open>splice(index, 1)\<close>: the first occurrence goes, if there is one.\<close>

definition removeMCPStatusChangeListener :: "listener \<Rightarrow> mcp_state \<Rightarrow> mcp_state" where
  "removeMCPStatusChangeListener l s =
     s\<lparr> statusChangeListeners := remove1 l (statusChangeListeners s) \<rparr>"

text \<open>The map is written first, then the listeners are called in array order.\<close>

definition updateMCPServerStatus :: "string \<Rightarrow> MCPServerStatus \<Rightarrow> mcp_state \<Rightarrow> mcp_state" where
  "updateMCPServerStatus serverName status s =
     s\<lparr> mcpServerStatusesInternal := (mcpServerStatusesInternal s)(serverName \<mapsto> status),
        trace := trace s @ StatusSet serverName status
                 # map (\<lambda>l. ListenerCalled l serverName status) (statusChangeListeners s) \<rparr>"

definition getMCPServerStatus :: "string \<Rightarrow> mcp_state \<Rightarrow> MCPServerStatus" where
  "getMCPServerStatus serverName s =
     (case mcpServerStatusesInternal s serverName of None \<Rightarrow> DISCONNECTED | Some st \<Rightarrow> st)"

definition getAllMCPServerStatuses :: "mcp_state \<Rightarrow> (string \<rightharpoonup> MCPServerStatus)" where
  "getAllMCPServerStatuses s = mcpServerStatusesInternal s"

definition getMCPDiscoveryState :: "mcp_state \<Rightarrow> MCPDiscoveryState" where
  "getMCPDiscoveryState s = mcpDiscoveryState s"




subsection \<open>Strings\<close>

text \<open>\<^verbatim>\<open>s.startsWith(p)\<close> and \<^verbatim>\<open>s.includes(p)\<close>.\<close>

definition startsWith :: "string \<Rightarrow> string \<Rightarrow> bool" where
  "startsWith s p = (take (length p) s = p)"

definition string_includes :: "string \<Rightarrow> string \<Rightarrow> bool" where
  "string_includes s p = list_ex (\<lambda>i. startsWith (drop i s) p) [0..<Suc (length s)]"

text \<open>A string between single quotes, as the log messages print server names.\<close>

definition quoted :: "string \<Rightarrow> string" where
  "quoted s = CHR 0x27 # s @ [CHR 0x27]"

subsection \<open>The platform\<close>

text \<open>
  What \<^verbatim>\<open>shell-quote\<close>'s \<^verbatim>\<open>parse\<close> returns: strings, and objects for operators, globs and
  comments. The tokenizer, the \<^verbatim>\<open>URL\<close> constructor and \<^verbatim>\<open>process.env\<close> are not part of
  the repository; the model takes them as parameters. \<open>URL_valid u\<close> says that
  \<^verbatim>\<open>new URL(u)\<close> returns rather than throws.
\<close>

datatype shell_token = Str string | Op string

fun is_Str :: "shell_token \<Rightarrow> bool" where
  "is_Str (Str _) = True"
| "is_Str (Op _) = False"

fun str_of :: "shell_token \<Rightarrow> string" where
  "str_of (Str w) = w"
| "str_of (Op w) = w"

record platform =
  process_env :: "string \<rightharpoonup> string"
  parse :: "string \<Rightarrow> (string \<rightharpoonup> string) \<Rightarrow> shell_token list"
  URL_valid :: "string \<Rightarrow> bool"

subsection \<open>Filtering: \<^verbatim>\<open>isEnabled\<close>\<close>

text \<open>The result, and the lines written with \<^verbatim>\<open>console.warn\<close>.\<close>

definition isEnabled :: "FunctionDeclaration \<Rightarrow> string \<Rightarrow> MCPServerConfig \<Rightarrow> bool \<times> string list" where
  "isEnabled funcDecl mcpServerName mcpServerConfig =
     (if \<not> truthy (fd_name funcDecl) then
        (False, [''Discovered a function declaration without a name from MCP server ''
                  @ quoted mcpServerName @ ''. Skipping.''])
      else if (case excludeTools mcpServerConfig of
                 None \<Rightarrow> False
               | Some excluded \<Rightarrow> the (fd_name funcDecl) \<in> set excluded) then (False, [])
      else
        ((case includeTools mcpServerConfig of
            None \<Rightarrow> True
          | Some included \<Rightarrow>
              list_ex (\<lambda>tool. tool = the (fd_name funcDecl)
                            \<or> startsWith tool (the (fd_name funcDecl) @ ''('')) included),
         []))"

subsection \<open>Transport Factory: \<^verbatim>\<open>createTransport\<close>\<close>

definition new_URL :: "platform \<Rightarrow> string \<Rightarrow> js_error + string" where
  "new_URL pf u = (if URL_valid pf u then Inr u else Inl (TypeError ''Invalid URL''))"

text \<open>\<^verbatim>\<open>{...process.env, ...(mcpServerConfig.env || {})}\<close>.\<close>

definition child_env :: "platform \<Rightarrow> MCPServerConfig \<Rightarrow> (string \<rightharpoonup> string)" where
  "child_env pf mcpServerConfig =
     process_env pf ++ (case env mcpServerConfig of None \<Rightarrow> Map.empty | Some e \<Rightarrow> e)"

definition createTransport :: "platform \<Rightarrow> string \<Rightarrow> MCPServerConfig \<Rightarrow> js_error + transport" where
  "createTransport pf mcpServerName mcpServerConfig =
     (if truthy (httpUrl mcpServerConfig) then
        (case new_URL pf (the (httpUrl mcpServerConfig)) of
           Inl e \<Rightarrow> Inl e
         | Inr u \<Rightarrow> Inr (StreamableHTTPClientTransport u (headers mcpServerConfig)))
      else if truthy (url mcpServerConfig) then
        (case new_URL pf (the (url mcpServerConfig)) of
           Inl e \<Rightarrow> Inl e
         | Inr u \<Rightarrow> Inr (SSEClientTransport u (headers mcpServerConfig)))
      else if truthy (command mcpServerConfig) then
        Inr (StdioClientTransport
              \<lparr> stdio_command = the (command mcpServerConfig),
                stdio_args = (case args mcpServerConfig of None \<Rightarrow> [] | Some a \<Rightarrow> a),
                stdio_env = child_env pf mcpServerConfig,
                stdio_cwd = cwd mcpServerConfig \<rparr>)
      else
        Inl (Error (''Invalid configuration: missing httpUrl (for Streamable HTTP), ''
                    @ ''url (for SSE), and command (for stdio).'')))"

subsection \<open>Ad-hoc command: \<^verbatim>\<open>populateMcpServerCommand\<close>\<close>

text \<open>
  The server map is an object; the model keeps it as the list of its entries in
  \<^verbatim>\<open>Object.entries\<close> order, with distinct keys. Assigning a property replaces the value
  of a key that is there, in place, and appends a new key at the end.
\<close>

fun set_property :: "(string \<times> 'v) list \<Rightarrow> string \<Rightarrow> 'v \<Rightarrow> (string \<times> 'v) list" where
  "set_property [] k v = [(k, v)]"
| "set_property ((k', v') # kvs) k v =
     (if k' = k then (k, v) # kvs else (k', v') # set_property kvs k v)"

text \<open>\<^verbatim>\<open>{ command: args[0], args: args.slice(1) }\<close>: \<^verbatim>\<open>args[0]\<close> of an empty array is
  \<^verbatim>\<open>undefined\<close>.\<close>

definition command_config :: "string list \<Rightarrow> MCPServerConfig" where
  "command_config ws =
     no_config\<lparr> command := (case ws of [] \<Rightarrow> None | w # _ \<Rightarrow> Some w), args := Some (tl ws) \<rparr>"

definition populateMcpServerCommand ::
  "platform \<Rightarrow> (string \<times> MCPServerConfig) list \<Rightarrow> string option
    \<Rightarrow> js_error + (string \<times> MCPServerConfig) list" where
  "populateMcpServerCommand pf mcpServers mcpServerCommand =
     (if truthy mcpServerCommand then
        (let cmd = the mcpServerCommand;
             tokens = parse pf cmd (process_env pf)
         in if list_ex (\<lambda>arg. \<not> is_Str arg) tokens
            then Inl (Error (''failed to parse mcpServerCommand: '' @ cmd))
            else Inr (set_property mcpServers ''mcp'' (command_config (map str_of tokens))))
      else Inr mcpServers)"

subsection \<open>The tool registry\<close>

text \<open>\<^verbatim>\<open>String(x)\<close> of an optional string.\<close>

fun js_string :: "string option \<Rightarrow> string" where
  "js_string None = ''undefined''"
| "js_string (Some w) = w"

text \<open>The wrench emoji that opens the registry's log line, in UTF-8.\<close>

definition wrench :: string where
  "wrench = [CHR 0xF0, CHR 0x9F, CHR 0x94, CHR 0xA7]"

text \<open>
  \<^verbatim>\<open>toolRegistry.registerTool(tool)\<close>. The registry handed to \<^verbatim>\<open>discoverMcpTools\<close> is the
  one \<^verbatim>\<open>createMcpAwareToolRegistry\<close> builds in \<^verbatim>\<open>tools/mcp-integration.js\<close> over the base
  registry of \<^verbatim>\<open>core/client.js\<close>: it stores the tool under its name
  (\<^verbatim>\<open>this.tools.set(tool.name, tool)\<close>) and logs a line when the tool has a server name.
  The call itself goes on the trace.
\<close>

definition registerTool :: "DiscoveredMCPTool \<Rightarrow> mcp_state \<Rightarrow> mcp_state" where
  "registerTool tool s =
     (let s1 = s\<lparr> registry_tools := (registry_tools s)(tool_name tool \<mapsto> tool),
                   trace := trace s @ [RegisterToolCalled tool] \<rparr>
      in if tool_serverName tool \<noteq> []
         then emit (ConsoleLog (wrench @ '' Registered MCP tool: '' @ js_string (tool_name tool)
                      @ '' (from '' @ tool_serverName tool @ '')'')) s1
         else s1)"

subsection \<open>Asynchronous functions\<close>

text \<open>
  A promise resolves, rejects, or stays pending for ever (\<open>Never\<close>). None of the async
  functions of the module reads the module state to decide what to do next: what each
  does depends on its arguments and on how the calls it awaits settle. So an async
  function is modelled by the list of actions it performs, in order, and the outcome of
  its promise; the actions are run against the state by whoever schedules them.
\<close>

datatype 'a outcome = Resolved 'a | Rejected js_error | Never

datatype action =
    UpdateStatus string MCPServerStatus
  | Emit event
  | RegisterTool DiscoveredMCPTool

type_synonym 'a async = "action list \<times> 'a outcome"

fun perform :: "action \<Rightarrow> mcp_state \<Rightarrow> mcp_state" where
  "perform (UpdateStatus serverName status) s = updateMCPServerStatus serverName status s"
| "perform (Emit e) s = emit e s"
| "perform (RegisterTool tool) s = registerTool tool s"

fun run :: "action list \<Rightarrow> mcp_state \<Rightarrow> mcp_state" where
  "run [] s = s"
| "run (a # acts) s = run acts (perform a s)"

definition resolve :: "'a \<Rightarrow> 'a async" where
  "resolve x = ([], Resolved x)"

definition reject :: "js_error \<Rightarrow> 'a async" where
  "reject e = ([], Rejected e)"

definition act :: "action \<Rightarrow> unit async" where
  "act a = ([a], Resolved ())"

text \<open>A synchronous result that is awaited, as in \<^verbatim>\<open>await createTransport(...)\<close>, whose
  body has no \<^verbatim>\<open>await\<close> of its own.\<close>

fun settled :: "js_error + 'a \<Rightarrow> 'a async" where
  "settled (Inl e) = reject e"
| "settled (Inr x) = resolve x"

text \<open>\<^verbatim>\<open>const x = await m; k(x)\<close>: a rejection of \<open>m\<close> is thrown on, and nothing after
  a promise that never settles is run.\<close>

fun await :: "'a async \<Rightarrow> ('a \<Rightarrow> 'b async) \<Rightarrow> 'b async" where
  "await (acts, Resolved x) k = (case k x of (acts', out) \<Rightarrow> (acts @ acts', out))"
| "await (acts, Rejected e) k = (acts, Rejected e)"
| "await (acts, Never) k = (acts, Never)"

text \<open>\<^verbatim>\<open>try { m } catch (error) { h(error) }\<close>.\<close>

fun try_catch :: "'a async \<Rightarrow> (js_error \<Rightarrow> 'a async) \<Rightarrow> 'a async" where
  "try_catch (acts, Rejected e) h = (case h e of (acts', out) \<Rightarrow> (acts @ acts', out))"
| "try_catch (acts, Resolved x) h = (acts, Resolved x)"
| "try_catch (acts, Never) h = (acts, Never)"

subsection \<open>The SDK and the remote server\<close>

text \<open>
  How the calls on the SDK settle for one server: \<^verbatim>\<open>mcpClient.connect\<close>,
  \<^verbatim>\<open>transport.close\<close>, and the \<^verbatim>\<open>tools/list\<close> request, whose result carries a
  \<^verbatim>\<open>tools\<close> field that is an array or something else. The entries of the array are
  objects, each with or without a name, a description and an input schema. A call that
  the SDK gives up on after its timeout is a rejected one.
\<close>

datatype 'a array_or_not = IsArray "'a list" | NotArray

record ListedTool =
  lt_name :: "string option"
  lt_description :: "string option"
  lt_inputSchema :: "json option"

record server_behaviour =
  connect_outcome :: "unit outcome"
  transport_close_outcome :: "unit outcome"
  tools_list_outcome :: "ListedTool array_or_not outcome"

subsection \<open>\<^verbatim>\<open>mcpToTool\<close> and \<^verbatim>\<open>DiscoveredMCPTool\<close>\<close>

text \<open>\<^verbatim>\<open>mcpToTool(mcpClient).tool()\<close>: \<^verbatim>\<open>listResult.tools.map\<close> throws a \<^verbatim>\<open>TypeError\<close>
  when \<^verbatim>\<open>tools\<close> is not an array.\<close>

definition functionDeclaration :: "ListedTool \<Rightarrow> FunctionDeclaration" where
  "functionDeclaration tool =
     \<lparr> fd_name = lt_name tool, fd_description = lt_description tool,
       fd_parametersJsonSchema = lt_inputSchema tool \<rparr>"

definition mcpToTool_tool ::
  "server_behaviour \<Rightarrow> Client \<Rightarrow> FunctionDeclaration array_or_not async" where
  "mcpToTool_tool remote mcpClient =
     await ([Emit (ClientRequest (client_of mcpClient) ''tools/list'' [] None)],
            tools_list_outcome remote)
       (\<lambda>tools. case tools of
            NotArray \<Rightarrow> reject (TypeError ''listResult.tools.map is not a function'')
          | IsArray ts \<Rightarrow> resolve (IsArray (map functionDeclaration ts)))"

text \<open>\<^verbatim>\<open>mcpToTool(mcpClient).execute(toolName, args)\<close>: one \<^verbatim>\<open>mcpClient.request\<close> with
  the method and the parameters and no options argument. \<open>reply\<close> is how that request
  settles.\<close>

definition mcpToTool_execute ::
  "json outcome \<Rightarrow> Client \<Rightarrow> string option \<Rightarrow> json \<Rightarrow> json async" where
  "mcpToTool_execute reply mcpClient toolName arguments =
     await ([Emit (ClientRequest (client_of mcpClient) ''tools/call''
                    ((case toolName of None \<Rightarrow> [] | Some w \<Rightarrow> [(''name'', JStr w)])
                       @ [(''arguments'', arguments)])
                    None)],
            reply)
       resolve"

text \<open>\<^verbatim>\<open>DiscoveredMCPTool.execute(params)\<close>.\<close>

definition execute :: "json outcome \<Rightarrow> DiscoveredMCPTool \<Rightarrow> json \<Rightarrow> json async" where
  "execute reply tool params =
     try_catch
       (await (mcpToTool_execute reply (tool_client tool) (tool_name tool) params) resolve)
       (\<lambda>error. reject (Error (''MCP tool execution failed: '' @ message error)))"

text \<open>
  The function that \<^verbatim>\<open>connectToMcpServer\<close> installs as \<^verbatim>\<open>mcpClient.callTool\<close>: it calls
  the SDK's own \<^verbatim>\<open>callTool\<close> with \<^verbatim>\<open>{...options, timeout: ...}\<close>. The result is the
  options the SDK's \<^verbatim>\<open>callTool\<close> receives.
\<close>

definition callTool_options :: "Client \<Rightarrow> request_options option \<Rightarrow> request_options" where
  "callTool_options mcpClient options =
     (case options of None \<Rightarrow> \<lparr> opt_timeout = None \<rparr> | Some opts \<Rightarrow> opts)
       \<lparr> opt_timeout := Some (callTool_timeout mcpClient) \<rparr>"

text \<open>The timeout the protocol runtime applies to a request: the one in the options it
  is given, its own default when it is given none.\<close>

definition request_timeout :: "int \<Rightarrow> request_options option \<Rightarrow> int" where
  "request_timeout runtime_default options =
     (case options of
        None \<Rightarrow> runtime_default
      | Some opts \<Rightarrow> (case opt_timeout opts of None \<Rightarrow> runtime_default | Some t \<Rightarrow> t))"

subsection \<open>Tool Discovery: \<^verbatim>\<open>discoverTools\<close>\<close>

text \<open>\<^verbatim>\<open>new DiscoveredMCPTool(...)\<close> with the defaults of the \<^verbatim>\<open>??\<close> operators.\<close>

definition new_DiscoveredMCPTool ::
  "Client \<Rightarrow> string \<Rightarrow> MCPServerConfig \<Rightarrow> FunctionDeclaration \<Rightarrow> DiscoveredMCPTool" where
  "new_DiscoveredMCPTool mcpClient mcpServerName mcpServerConfig funcDecl =
     \<lparr> tool_client = mcpClient,
       tool_serverName = mcpServerName,
       tool_name = fd_name funcDecl,
       tool_description = (case fd_description funcDecl of None \<Rightarrow> [] | Some d \<Rightarrow> d),
       tool_schema = (case fd_parametersJsonSchema funcDecl of
                        None \<Rightarrow> JObj [(''type'', JStr ''object''), (''properties'', JObj [])]
                      | Some JNull \<Rightarrow> JObj [(''type'', JStr ''object''), (''properties'', JObj [])]
                      | Some j \<Rightarrow> j),
       tool_timeout = timeout_or_default mcpServerConfig \<rparr>"

text \<open>The \<^verbatim>\<open>for\<close> loop of \<^verbatim>\<open>discoverTools\<close>: the tools pushed, and the warnings of
  \<^verbatim>\<open>isEnabled\<close>, both in the order of the declarations.\<close>

fun discoveredTools ::
  "string \<Rightarrow> MCPServerConfig \<Rightarrow> Client \<Rightarrow> FunctionDeclaration list
    \<Rightarrow> DiscoveredMCPTool list \<times> string list" where
  "discoveredTools mcpServerName mcpServerConfig mcpClient [] = ([], [])"
| "discoveredTools mcpServerName mcpServerConfig mcpClient (funcDecl # rest) =
     (case isEnabled funcDecl mcpServerName mcpServerConfig of (enabled, warnings) \<Rightarrow>
      case discoveredTools mcpServerName mcpServerConfig mcpClient rest of (tools, warnings') \<Rightarrow>
        (if enabled
         then new_DiscoveredMCPTool mcpClient mcpServerName mcpServerConfig funcDecl # tools
         else tools,
         warnings @ warnings'))"

definition discoverTools ::
  "server_behaviour \<Rightarrow> string \<Rightarrow> MCPServerConfig \<Rightarrow> Client \<Rightarrow> DiscoveredMCPTool list async" where
  "discoverTools remote mcpServerName mcpServerConfig mcpClient =
     try_catch
       (await (mcpToTool_tool remote mcpClient) (\<lambda>functionDeclarations.
          case functionDeclarations of
            NotArray \<Rightarrow> reject (Error ''Server did not return valid function declarations.'')
          | IsArray decls \<Rightarrow>
              (case discoveredTools mcpServerName mcpServerConfig mcpClient decls of
                 (tools, warnings) \<Rightarrow>
                   await (map (\<lambda>w. Emit (ConsoleWarn w)) warnings, Resolved ()) (\<lambda>_.
                     if tools = [] then reject (Error ''No enabled tools found'')
                     else resolve tools))))
       (\<lambda>error. reject (Error (''Error discovering tools: '' @ error_toString error)))"

subsection \<open>Capability Client: \<^verbatim>\<open>connectToMcpServer\<close>\<close>

definition conciseError :: "string \<Rightarrow> js_error \<Rightarrow> string" where
  "conciseError mcpServerName error =
     (let errorMessage = message_or_error error;
          isNetworkError = (string_includes errorMessage ''ENOTFOUND''
                            \<or> string_includes errorMessage ''ECONNREFUSED'')
      in if isNetworkError
         then ''Cannot connect to '' @ quoted mcpServerName
              @ '' - server may be down or URL incorrect''
         else ''Connection failed for '' @ quoted mcpServerName @ '': '' @ errorMessage)"

definition new_Client :: "string \<Rightarrow> MCPServerConfig \<Rightarrow> Client" where
  "new_Client mcpServerName mcpServerConfig =
     \<lparr> client_of = mcpServerName, callTool_timeout = timeout_or_default mcpServerConfig \<rparr>"

definition connectToMcpServer ::
  "platform \<Rightarrow> server_behaviour \<Rightarrow> string \<Rightarrow> MCPServerConfig \<Rightarrow> Client async" where
  "connectToMcpServer pf remote mcpServerName mcpServerConfig =
     try_catch
       (await (settled (createTransport pf mcpServerName mcpServerConfig)) (\<lambda>transport.
          try_catch
            (await ([Emit (ClientConnect mcpServerName transport
                            \<lparr> opt_timeout = Some (timeout_or_default mcpServerConfig) \<rparr>)],
                    connect_outcome remote)
               (\<lambda>_. resolve (new_Client mcpServerName mcpServerConfig)))
            (\<lambda>error. await ([Emit (TransportClose mcpServerName)],
                             transport_close_outcome remote)
                        (\<lambda>_. reject error))))
       (\<lambda>error. reject (Error (conciseError mcpServerName error)))"

subsection \<open>Connection Orchestrator: \<^verbatim>\<open>connectAndDiscover\<close> and \<^verbatim>\<open>discoverMcpTools\<close>\<close>

text \<open>The line that the outer \<^verbatim>\<open>catch\<close> of \<^verbatim>\<open>connectAndDiscover\<close> writes with
  \<^verbatim>\<open>console.error\<close>.\<close>

definition error_line :: "string \<Rightarrow> js_error \<Rightarrow> string" where
  "error_line mcpServerName error =
     ''Error connecting to MCP server '' @ quoted mcpServerName @ '': ''
       @ message_or_error error"

definition connectAndDiscover ::
  "platform \<Rightarrow> server_behaviour \<Rightarrow> string \<Rightarrow> MCPServerConfig \<Rightarrow> unit async" where
  "connectAndDiscover pf remote mcpServerName mcpServerConfig =
     await (act (UpdateStatus mcpServerName CONNECTING)) (\<lambda>_.
       try_catch
         (await (connectToMcpServer pf remote mcpServerName mcpServerConfig) (\<lambda>mcpClient.
            try_catch
              (await (act (UpdateStatus mcpServerName CONNECTED)) (\<lambda>_.
               await (act (Emit (OnErrorSet mcpServerName))) (\<lambda>_.
               await (discoverTools remote mcpServerName mcpServerConfig mcpClient) (\<lambda>tools.
                 (map RegisterTool tools, Resolved ())))))
              (\<lambda>error. await (act (Emit (ClientClose mcpServerName))) (\<lambda>_. reject error))))
         (\<lambda>error.
            await (act (Emit (ConsoleError (error_line mcpServerName error)))) (\<lambda>_.
            act (UpdateStatus mcpServerName DISCONNECTED))))"

text \<open>The handler stored in \<^verbatim>\<open>mcpClient.onerror\<close>, run by the SDK on a later fault of
  the connection.\<close>

definition onerror :: "string \<Rightarrow> js_error \<Rightarrow> action list" where
  "onerror mcpServerName error =
     [Emit (ConsoleError (''MCP ERROR ('' @ mcpServerName @ ''): '' @ error_toString error)),
      UpdateStatus mcpServerName DISCONNECTED]"

definition setDiscoveryState :: "MCPDiscoveryState \<Rightarrow> mcp_state \<Rightarrow> mcp_state" where
  "setDiscoveryState st s =
     s\<lparr> mcpDiscoveryState := st, trace := trace s @ [DiscoveryStateSet st] \<rparr>"

text \<open>
  \<^verbatim>\<open>Promise.all\<close> over the pipelines. The event loop runs one pipeline for a while, then
  another; \<open>schedule\<close> says which of the pipelines that still have something to do goes
  next (an entry is taken modulo their number, and the first one goes once the schedule
  is used up). The model lets the scheduler switch after every single action, where
  JavaScript switches only at an \<^verbatim>\<open>await\<close>: every order the event loop can produce is the
  order of some schedule. A pipeline's promise settles when its last action has run.
  \<^verbatim>\<open>Promise.all\<close> rejects as soon as one promise has rejected, resolves when all have
  resolved, and stays pending otherwise.
\<close>

definition settled_rejection :: "'a async list \<Rightarrow> js_error option" where
  "settled_rejection tasks =
     (case List.map_filter
             (\<lambda>task. case task of ([], Rejected e) \<Rightarrow> Some e | _ \<Rightarrow> None) tasks of
        [] \<Rightarrow> None
      | e # _ \<Rightarrow> Some e)"

definition pending :: "'a async list \<Rightarrow> nat list" where
  "pending tasks = filter (\<lambda>i. fst (tasks ! i) \<noteq> []) [0..<length tasks]"

definition pick :: "nat list \<Rightarrow> nat list \<Rightarrow> nat" where
  "pick schedule candidates =
     candidates ! (case schedule of [] \<Rightarrow> 0 | k # _ \<Rightarrow> k mod length candidates)"

definition advance :: "nat \<Rightarrow> 'a async list \<Rightarrow> 'a async list" where
  "advance i tasks = tasks[i := (tl (fst (tasks ! i)), snd (tasks ! i))]"

definition remaining :: "'a async list \<Rightarrow> nat" where
  "remaining tasks = sum_list (map (\<lambda>task. length (fst task)) tasks)"

function Promise_all ::
  "nat list \<Rightarrow> unit async list \<Rightarrow> mcp_state \<Rightarrow> unit outcome \<times> mcp_state" where
  "Promise_all schedule tasks s =
     (case settled_rejection tasks of
        Some e \<Rightarrow> (Rejected e, s)
      | None \<Rightarrow>
          if pending tasks = [] then
            (if list_all (\<lambda>task. snd task = Resolved ()) tasks then Resolved () else Never, s)
          else
            (let i = pick schedule (pending tasks)
             in Promise_all (tl schedule) (advance i tasks)
                  (perform (hd (fst (tasks ! i))) s)))"
  by pat_completeness auto
termination
proof (relation "measure (\<lambda>(schedule, tasks, s). remaining tasks)", goal_cases)
  case 1
  show ?case by simp
next
  case (2 schedule tasks s i)
  define ns where "ns = map (\<lambda>task. length (fst task)) tasks"
  have "pick schedule (pending tasks) \<in> set (pending tasks)"
    using 2(2) by (cases schedule) (simp_all add: pick_def)
  then have i: "i < length tasks" and nonempty: "fst (tasks ! i) \<noteq> []"
    using 2(3) by (auto simp: pending_def)
  have upd: "map (\<lambda>task. length (fst task)) (advance i tasks) = ns[i := ns ! i - 1]"
    using i by (simp add: advance_def map_update ns_def)
  have pos: "0 < ns ! i"
    using i nonempty by (simp add: ns_def)
  have le: "ns ! i \<le> sum_list ns"
    using elem_le_sum_list [of i ns] i by (simp add: ns_def)
  have "sum_list (ns[i := ns ! i - 1]) = sum_list ns + (ns ! i - 1) - ns ! i"
    using i by (simp add: sum_list_update ns_def)
  with pos le have "sum_list (ns[i := ns ! i - 1]) < sum_list ns"
    by arith
  then have "remaining (advance i tasks) < remaining tasks"
    by (simp add: remaining_def upd) (simp add: ns_def)
  then show ?case by simp
qed

declare Promise_all.simps [simp del]

text \<open>
  \<open>remote\<close> gives the behaviour of the SDK calls for each server name. The phase is set
  before the command is tokenized; the \<^verbatim>\<open>finally\<close> block runs when the \<^verbatim>\<open>try\<close> block is
  left, which never happens while \<^verbatim>\<open>Promise.all\<close> stays pending.
\<close>

definition discoverMcpTools ::
  "platform \<Rightarrow> (string \<Rightarrow> server_behaviour) \<Rightarrow> nat list
    \<Rightarrow> (string \<times> MCPServerConfig) list \<Rightarrow> string option \<Rightarrow> mcp_state
    \<Rightarrow> unit outcome \<times> mcp_state" where
  "discoverMcpTools pf remote schedule mcpServers mcpServerCommand s =
     (let s1 = setDiscoveryState IN_PROGRESS s in
      case populateMcpServerCommand pf mcpServers mcpServerCommand of
        Inl error \<Rightarrow> (Rejected error, setDiscoveryState COMPLETED s1)
      | Inr servers \<Rightarrow>
          (case Promise_all schedule
                  (map (\<lambda>(mcpServerName, mcpServerConfig).
                          connectAndDiscover pf (remote mcpServerName)
                            mcpServerName mcpServerConfig)
                     servers) s1 of
             (Never, s2) \<Rightarrow> (Never, s2)
           | (out, s2) \<Rightarrow> (out, setDiscoveryState COMPLETED s2)))"

text \<open>The declarations of a listing that pass the filter, in the order the server
  reported them.\<close>

definition passing ::
  "string \<Rightarrow> MCPServerConfig \<Rightarrow> ListedTool list \<Rightarrow> FunctionDeclaration list" where
  "passing mcpServerName mcpServerConfig ts =
     filter (\<lambda>funcDecl. fst (isEnabled funcDecl mcpServerName mcpServerConfig))
       (map functionDeclaration ts)"

subsection \<open>Notions used in the statements\<close>

text \<open>The error that ends a server's pipeline, from its connect step or from its
  discovery step, and the tools of a pipeline that went through.\<close>

definition pipeline_error :: "platform \<Rightarrow> server_behaviour \<Rightarrow> string \<Rightarrow> MCPServerConfig \<Rightarrow> js_error option" where
  "pipeline_error pf remote n cfg =
     (case snd (connectToMcpServer pf remote n cfg) of
        Rejected e \<Rightarrow> Some e
      | Never \<Rightarrow> None
      | Resolved cl \<Rightarrow>
          (case snd (discoverTools remote n cfg cl) of Rejected e \<Rightarrow> Some e | _ \<Rightarrow> None))"

definition pipeline_tools ::
  "platform \<Rightarrow> server_behaviour \<Rightarrow> string \<Rightarrow> MCPServerConfig \<Rightarrow> DiscoveredMCPTool list option" where
  "pipeline_tools pf remote n cfg =
     (case snd (connectToMcpServer pf remote n cfg) of
        Resolved cl \<Rightarrow>
          (case snd (discoverTools remote n cfg cl) of Resolved tools \<Rightarrow> Some tools | _ \<Rightarrow> None)
      | _ \<Rightarrow> None)"

text \<open>What one action appends to the trace, given the listeners subscribed; the
  statuses that a list of actions writes for one server, in order.\<close>

fun is_Emit :: "action \<Rightarrow> bool" where
  "is_Emit (Emit _) = True"
| "is_Emit _ = False"

fun action_events :: "listener list \<Rightarrow> action \<Rightarrow> event list" where
  "action_events ls (UpdateStatus n st) = StatusSet n st # map (\<lambda>l. ListenerCalled l n st) ls"
| "action_events ls (Emit e) = [e]"
| "action_events ls (RegisterTool tool) =
     RegisterToolCalled tool #
       (if tool_serverName tool \<noteq> []
        then [ConsoleLog (wrench @ '' Registered MCP tool: '' @ js_string (tool_name tool)
                      @ '' (from '' @ tool_serverName tool @ '')'')]
        else [])"

fun status_write :: "string \<Rightarrow> action \<Rightarrow> MCPServerStatus option" where
  "status_write n (UpdateStatus m st) = (if m = n then Some st else None)"
| "status_write n _ = None"

definition status_writes :: "string \<Rightarrow> action list \<Rightarrow> MCPServerStatus list" where
  "status_writes n acts = List.map_filter (status_write n) acts"

section \<open>Example inputs\<close>

text \<open>
  Concrete inputs for the instances below. \<open>example_platform\<close> stands in for the
  platform: its tokenizer splits at spaces and reports a lone \<^verbatim>\<open>|\<close> as an operator (which
  is what \<^verbatim>\<open>shell-quote\<close> does on such input), and it accepts a URL that starts with
  \<^verbatim>\<open>http\<close>.
\<close>

fun split_spaces :: "string \<Rightarrow> string \<Rightarrow> string list" where
  "split_spaces w [] = (if w = [] then [] else [w])"
| "split_spaces w (c # cs) =
     (if c = CHR '' '' then (if w = [] then split_spaces [] cs else w # split_spaces [] cs)
      else split_spaces (w @ [c]) cs)"

definition example_token :: "string \<Rightarrow> shell_token" where
  "example_token w = (if w = ''|'' then Op w else Str w)"

definition example_platform :: platform where
  "example_platform =
     \<lparr> process_env = [''PATH'' \<mapsto> ''/bin'', ''HOME'' \<mapsto> ''/root''],
       parse = (\<lambda>cmd env. map example_token (split_spaces [] cmd)),
       URL_valid = (\<lambda>u. startsWith u ''http'') \<rparr>"

definition fd_named :: "string \<Rightarrow> FunctionDeclaration" where
  "fd_named w = \<lparr> fd_name = Some w, fd_description = None, fd_parametersJsonSchema = None \<rparr>"

definition fd_unnamed :: FunctionDeclaration where
  "fd_unnamed = \<lparr> fd_name = None, fd_description = None, fd_parametersJsonSchema = None \<rparr>"

definition three_tools :: "ListedTool list" where
  "three_tools =
     [\<lparr> lt_name = Some ''read'', lt_description = Some ''Read a file'', lt_inputSchema = None \<rparr>,
      \<lparr> lt_name = Some ''drop'', lt_description = None, lt_inputSchema = None \<rparr>,
      \<lparr> lt_name = Some ''list'', lt_description = None, lt_inputSchema = Some (JObj []) \<rparr>]"

text \<open>A server that connects and answers the listing request with \<open>tools\<close>.\<close>

definition remote_listing :: "ListedTool array_or_not \<Rightarrow> server_behaviour" where
  "remote_listing tools =
     \<lparr> connect_outcome = Resolved (), transport_close_outcome = Resolved (),
       tools_list_outcome = Resolved tools \<rparr>"

text \<open>A server whose connection attempt times out, and three configured servers of
  which the first is that one.\<close>

definition timing_out :: server_behaviour where
  "timing_out = \<lparr> connect_outcome = Rejected (Error ''Request timed out''),
      transport_close_outcome = Resolved (), tools_list_outcome = Never \<rparr>"

definition three_servers :: "(string \<times> MCPServerConfig) list" where
  "three_servers =
     [(''A'', no_config\<lparr> url := Some ''http://a/sse'' \<rparr>),
      (''B'', no_config\<lparr> command := Some ''npx'' \<rparr>),
      (''C'', no_config\<lparr> httpUrl := Some ''http://c/mcp'', excludeTools := Some [''drop''] \<rparr>)]"

definition three_remotes :: "string \<Rightarrow> server_behaviour" where
  "three_remotes n = (if n = ''A'' then timing_out else remote_listing (IsArray three_tools))"

definition read_tool :: "string \<Rightarrow> DiscoveredMCPTool" where
  "read_tool n =
     \<lparr> tool_client = \<lparr> client_of = n, callTool_timeout = 600000 \<rparr>, tool_serverName = n,
       tool_name = Some ''read'', tool_description = ''Read a file'',
       tool_schema = JObj [(''type'', JStr ''object''), (''properties'', JObj [])],
       tool_timeout = 600000 \<rparr>"

definition sse_config :: MCPServerConfig where
  "sse_config = no_config\<lparr> url := Some ''http://b/sse'' \<rparr>"

text \<open>A subprocess server with a one-second timeout and a tool discovered from it.\<close>

definition slow_config :: MCPServerConfig where
  "slow_config = no_config\<lparr> command := Some ''npx'', timeout := Some 1000 \<rparr>"

definition slow_tool :: DiscoveredMCPTool where
  "slow_tool = new_DiscoveredMCPTool (new_Client ''srv'' slow_config) ''srv'' slow_config
                 (fd_named ''slow'')"

section \<open>Properties\<close>

subsection \<open>Server Status Registry\<close>





subsection \<open>Filtering\<close>

text \<open>
  Claim C3, as the code has it. An operation whose name is in \<open>excludeTools\<close> is
  dropped whatever \<open>includeTools\<close> holds. An operation without a name, or whose name
  is the empty string, is dropped with one warning and no error. An operation with a
  non-empty name that is not excluded is kept exactly when \<open>includeTools\<close> is absent
  or has an entry that is the name itself or starts with the name followed by an
  opening parenthesis; no warning is written for it.
\<close>

theorem isEnabled_filter_rule:
  "(fd_name fd = Some name \<and> excludeTools cfg = Some ex \<and> name \<in> set ex
      \<longrightarrow> fst (isEnabled fd n cfg) = False)
   \<and> (fd_name fd = None \<or> fd_name fd = Some []
      \<longrightarrow> isEnabled fd n cfg =
            (False, [''Discovered a function declaration without a name from MCP server ''
                      @ quoted n @ ''. Skipping.'']))
   \<and> (fd_name fd = Some name \<and> name \<noteq> [] \<and>
        (\<forall>ex. excludeTools cfg = Some ex \<longrightarrow> name \<notin> set ex)
      \<longrightarrow> isEnabled fd n cfg =
            (includeTools cfg = None \<or>
              (\<exists>inc tool. includeTools cfg = Some inc \<and> tool \<in> set inc \<and>
                 (tool = name \<or> startsWith tool (name @ ''(''))), []))"
  by (auto simp: isEnabled_def list_ex_iff split: option.splits)

theorem isEnabled_filter_rule_witness:
  "fst (isEnabled (fd_named ''read'') ''srv''
          (no_config\<lparr> includeTools := Some [''read''], excludeTools := Some [''read''] \<rparr>)) = False
   \<and> isEnabled fd_unnamed ''srv'' no_config
       = (False, [''Discovered a function declaration without a name from MCP server ''
                      @ quoted ''srv'' @ ''. Skipping.''])
   \<and> isEnabled (fd_named ''read'') ''srv''
        (no_config\<lparr> includeTools := Some [''write'', ''read(dir)''] \<rparr>) = (True, [])
   \<and> isEnabled (fd_named ''read'') ''srv'' no_config = (True, [])
   \<and> isEnabled (fd_named ''read'') ''srv'' (no_config\<lparr> includeTools := Some [''reader''] \<rparr>)
       = (False, [])
   \<and> isEnabled (fd_named []) ''srv'' (no_config\<lparr> includeTools := Some [''read''] \<rparr>)
       = (False, [''Discovered a function declaration without a name from MCP server ''
                      @ quoted ''srv'' @ ''. Skipping.''])"
  using isEnabled_filter_rule [of "fd_named ''read''" "''read''"
      "no_config\<lparr> includeTools := Some [''read''], excludeTools := Some [''read''] \<rparr>"
      "[''read'']" "''srv''"]
    isEnabled_filter_rule [of fd_unnamed "''x''" no_config "[]" "''srv''"]
    isEnabled_filter_rule [of "fd_named []" "''x''"
      "no_config\<lparr> includeTools := Some [''read''] \<rparr>" "[]" "''srv''"]
    isEnabled_filter_rule [of "fd_named ''read''" "''read''"
      "no_config\<lparr> includeTools := Some [''write'', ''read(dir)''] \<rparr>" "[]" "''srv''"]
  by (simp add: fd_named_def fd_unnamed_def no_config_def isEnabled_def startsWith_def)

text \<open>
  The claim as worded fails at an operation whose name is the empty string: it has a
  name field, it is not excluded and \<open>includeTools\<close> is absent, yet it is dropped,
  with the warning.
\<close>

theorem isEnabled_empty_name_counterexample:
  "fd_name (fd_named []) = Some []
   \<and> includeTools no_config = None
   \<and> excludeTools no_config = None
   \<and> isEnabled (fd_named []) ''srv'' no_config =
       (False, [''Discovered a function declaration without a name from MCP server ''
                  @ quoted ''srv'' @ ''. Skipping.''])"
  by (simp add: fd_named_def no_config_def isEnabled_def)

subsection \<open>Transport Factory\<close>

text \<open>
  Claim C4. A selector counts as present when its field is a non-empty string. With
  \<open>httpUrl\<close> present the streaming-HTTP transport is built, whatever the other two
  hold; else with \<open>url\<close> present the SSE transport; else with \<open>command\<close> present
  the subprocess transport. With none present the call fails with the configuration
  error and no transport object exists. (A URL the \<^verbatim>\<open>URL\<close> constructor refuses fails
  the call with that constructor's error; the later selectors are not tried.)
\<close>

theorem createTransport_precedence:
  "(truthy (httpUrl cfg) \<longrightarrow>
      createTransport pf n cfg =
        (if URL_valid pf (the (httpUrl cfg))
         then Inr (StreamableHTTPClientTransport (the (httpUrl cfg)) (headers cfg))
         else Inl (TypeError ''Invalid URL'')))
   \<and> (\<not> truthy (httpUrl cfg) \<and> truthy (url cfg) \<longrightarrow>
      createTransport pf n cfg =
        (if URL_valid pf (the (url cfg))
         then Inr (SSEClientTransport (the (url cfg)) (headers cfg))
         else Inl (TypeError ''Invalid URL'')))
   \<and> (\<not> truthy (httpUrl cfg) \<and> \<not> truthy (url cfg) \<and> truthy (command cfg) \<longrightarrow>
      createTransport pf n cfg =
        Inr (StdioClientTransport
              \<lparr> stdio_command = the (command cfg),
                stdio_args = (case args cfg of None \<Rightarrow> [] | Some a \<Rightarrow> a),
                stdio_env = child_env pf cfg,
                stdio_cwd = cwd cfg \<rparr>))
   \<and> (\<not> truthy (httpUrl cfg) \<and> \<not> truthy (url cfg) \<and> \<not> truthy (command cfg) \<longrightarrow>
      createTransport pf n cfg =
        Inl (Error (''Invalid configuration: missing httpUrl (for Streamable HTTP), ''
                    @ ''url (for SSE), and command (for stdio).'')))"
  by (simp add: createTransport_def new_URL_def)

theorem createTransport_precedence_witness:
  "createTransport example_platform ''s''
      (no_config\<lparr> httpUrl := Some ''http://h/mcp'', url := Some ''http://h/sse'',
                  command := Some ''npx'' \<rparr>)
     = Inr (StreamableHTTPClientTransport ''http://h/mcp'' None)
   \<and> createTransport example_platform ''s''
      (no_config\<lparr> url := Some ''http://h/sse'', command := Some ''npx'' \<rparr>)
     = Inr (SSEClientTransport ''http://h/sse'' None)
   \<and> (\<exists>p. createTransport example_platform ''s'' (no_config\<lparr> command := Some ''npx'' \<rparr>)
            = Inr (StdioClientTransport p) \<and> stdio_command p = ''npx'')
   \<and> createTransport example_platform ''s'' no_config =
        Inl (Error (''Invalid configuration: missing httpUrl (for Streamable HTTP), ''
                    @ ''url (for SSE), and command (for stdio).''))"
  using createTransport_precedence [of
      "no_config\<lparr> httpUrl := Some ''http://h/mcp'', url := Some ''http://h/sse'',
                  command := Some ''npx'' \<rparr>" example_platform "''s''"]
    createTransport_precedence [of
      "no_config\<lparr> url := Some ''http://h/sse'', command := Some ''npx'' \<rparr>"
      example_platform "''s''"]
    createTransport_precedence [of "no_config\<lparr> command := Some ''npx'' \<rparr>"
      example_platform "''s''"]
    createTransport_precedence [of no_config example_platform "''s''"]
  by (simp add: no_config_def example_platform_def startsWith_def)

subsection \<open>Ad-hoc command\<close>

lemma map_of_set_property:
  "map_of (set_property kvs k v) = (map_of kvs)(k \<mapsto> v)"
  by (induction kvs) (auto simp: fun_eq_iff)

lemma keys_set_property:
  "map fst (set_property kvs k v) =
     (if k \<in> fst ` set kvs then map fst kvs else map fst kvs @ [k])"
  by (induction kvs) force+

lemma distinct_set_property:
  "distinct (map fst kvs) \<Longrightarrow> distinct (map fst (set_property kvs k v))"
  by (simp add: keys_set_property)

text \<open>
  Claim C7, as the code has it. An ad-hoc command is taken up only when the string is
  not empty. Then, if every token is a string, the entry under \<open>''mcp''\<close> of the
  returned map is the descriptor made of the tokens alone (first token the command,
  the rest the arguments, every other field absent), whatever was stored under that
  name before; the other entries are as they were and no key is doubled. If some
  token is not a string the call throws, and \<open>discoverMcpTools\<close> rejects with that
  error. With the empty string, as with no command at all, every server map is
  returned as it is.
\<close>

theorem populateMcpServerCommand_replaces:
  "(cmd \<noteq> [] \<longrightarrow>
    (if list_all is_Str (parse pf cmd (process_env pf))
     then \<exists>servers'. populateMcpServerCommand pf mcpServers (Some cmd) = Inr servers'
            \<and> map_of servers' ''mcp'' =
                Some (command_config (map str_of (parse pf cmd (process_env pf))))
            \<and> (\<forall>k. k \<noteq> ''mcp'' \<longrightarrow> map_of servers' k = map_of mcpServers k)
            \<and> (distinct (map fst mcpServers) \<longrightarrow> distinct (map fst servers'))
     else populateMcpServerCommand pf mcpServers (Some cmd)
            = Inl (Error (''failed to parse mcpServerCommand: '' @ cmd))
          \<and> fst (discoverMcpTools pf remote schedule mcpServers (Some cmd) s)
            = Rejected (Error (''failed to parse mcpServerCommand: '' @ cmd))))
   \<and> populateMcpServerCommand pf mcpServers (Some []) = Inr mcpServers
   \<and> populateMcpServerCommand pf mcpServers None = Inr mcpServers"
proof -
  have unchanged: "populateMcpServerCommand pf mcpServers (Some []) = Inr mcpServers"
    "populateMcpServerCommand pf mcpServers None = Inr mcpServers"
    by (simp_all add: populateMcpServerCommand_def)
  have taken: "\<exists>servers'. populateMcpServerCommand pf mcpServers (Some cmd) = Inr servers'
            \<and> map_of servers' ''mcp'' =
                Some (command_config (map str_of (parse pf cmd (process_env pf))))
            \<and> (\<forall>k. k \<noteq> ''mcp'' \<longrightarrow> map_of servers' k = map_of mcpServers k)
            \<and> (distinct (map fst mcpServers) \<longrightarrow> distinct (map fst servers'))"
    if "cmd \<noteq> []" "list_all is_Str (parse pf cmd (process_env pf))"
    using that
    by (auto simp: populateMcpServerCommand_def Let_def list_ex_iff list_all_iff
        map_of_set_property distinct_set_property)
  have thrown: "populateMcpServerCommand pf mcpServers (Some cmd)
            = Inl (Error (''failed to parse mcpServerCommand: '' @ cmd))"
    if "cmd \<noteq> []" "\<not> list_all is_Str (parse pf cmd (process_env pf))"
    using that
    by (simp add: populateMcpServerCommand_def Let_def list_ex_iff list_all_iff)
  have "fst (discoverMcpTools pf remote schedule mcpServers (Some cmd) s)
            = Rejected (Error (''failed to parse mcpServerCommand: '' @ cmd))"
    if "cmd \<noteq> []" "\<not> list_all is_Str (parse pf cmd (process_env pf))"
    using thrown [OF that] by (simp add: discoverMcpTools_def Let_def)
  with unchanged taken thrown show ?thesis
    by simp
qed

theorem populateMcpServerCommand_replaces_witness:
  "populateMcpServerCommand example_platform
      [(''fs'', no_config\<lparr> command := Some ''a'' \<rparr>),
       (''mcp'', no_config\<lparr> url := Some ''http://old'', timeout := Some 5 \<rparr>)]
      (Some ''npx server --port 1'')
     = Inr [(''fs'', no_config\<lparr> command := Some ''a'' \<rparr>),
            (''mcp'', no_config\<lparr> command := Some ''npx'',
                                 args := Some [''server'', ''--port'', ''1''] \<rparr>)]
   \<and> populateMcpServerCommand example_platform
      [(''mcp'', no_config\<lparr> url := Some ''http://old'' \<rparr>)] (Some ''cat | grep'')
     = Inl (Error ''failed to parse mcpServerCommand: cat | grep'')
   \<and> populateMcpServerCommand example_platform
      [(''fs'', no_config\<lparr> command := Some ''a'' \<rparr>),
       (''mcp'', no_config\<lparr> url := Some ''http://old'', timeout := Some 5 \<rparr>)]
      (Some [])
     = Inr [(''fs'', no_config\<lparr> command := Some ''a'' \<rparr>),
            (''mcp'', no_config\<lparr> url := Some ''http://old'', timeout := Some 5 \<rparr>)]"
  using populateMcpServerCommand_replaces [where cmd = "''npx server --port 1''"
      and mcpServers = "[(''fs'', no_config\<lparr> command := Some ''a'' \<rparr>),
        (''mcp'', no_config\<lparr> url := Some ''http://old'', timeout := Some 5 \<rparr>)]"
      and pf = example_platform]
    populateMcpServerCommand_replaces [where cmd = "''cat | grep''"
      and mcpServers = "[(''mcp'', no_config\<lparr> url := Some ''http://old'' \<rparr>)]"
      and pf = example_platform]
  by (simp add: populateMcpServerCommand_def example_platform_def example_token_def
      command_config_def no_config_def)

text \<open>
  The claim as worded, for every command string, fails at the empty string: it
  tokenizes (to no token at all), yet the entry stored under \<open>''mcp''\<close> stays.
\<close>

theorem populateMcpServerCommand_empty_counterexample:
  "list_all is_Str (parse example_platform [] (process_env example_platform))
   \<and> populateMcpServerCommand example_platform
        [(''mcp'', no_config\<lparr> url := Some ''http://old'' \<rparr>)] (Some [])
       = Inr [(''mcp'', no_config\<lparr> url := Some ''http://old'' \<rparr>)]
   \<and> map_of [(''mcp'', no_config\<lparr> url := Some ''http://old'' \<rparr>)] ''mcp''
       \<noteq> Some (command_config
                 (map str_of (parse example_platform [] (process_env example_platform))))"
  by (simp add: populateMcpServerCommand_def example_platform_def command_config_def
      no_config_def)

subsection \<open>Tool Discovery\<close>

lemma discoveredTools_filter:
  "fst (discoveredTools n cfg cl fds) =
     map (new_DiscoveredMCPTool cl n cfg) (filter (\<lambda>fd. fst (isEnabled fd n cfg)) fds)"
  by (induction fds) (auto split: prod.splits)

lemma discoverTools_outcome:
  "snd (discoverTools remote n cfg cl) =
     (case tools_list_outcome remote of
        Never \<Rightarrow> Never
      | Rejected e \<Rightarrow> Rejected (Error (''Error discovering tools: '' @ error_toString e))
      | Resolved NotArray \<Rightarrow>
          Rejected (Error (''Error discovering tools: ''
             @ error_toString (TypeError ''listResult.tools.map is not a function'')))
      | Resolved (IsArray ts) \<Rightarrow>
          (if filter (\<lambda>fd. fst (isEnabled fd n cfg)) (map functionDeclaration ts) = []
           then Rejected (Error (''Error discovering tools: ''
                   @ error_toString (Error ''No enabled tools found'')))
           else Resolved (map (new_DiscoveredMCPTool cl n cfg)
                   (filter (\<lambda>fd. fst (isEnabled fd n cfg)) (map functionDeclaration ts)))))"
proof (cases "tools_list_outcome remote")
  case (Resolved tools)
  show ?thesis
  proof (cases tools)
    case (IsArray ts)
    obtain found ws where d: "discoveredTools n cfg cl (map functionDeclaration ts) = (found, ws)"
      by (cases "discoveredTools n cfg cl (map functionDeclaration ts)")
    with discoveredTools_filter [of n cfg cl "map functionDeclaration ts"]
    have found: "found = map (new_DiscoveredMCPTool cl n cfg)
                 (filter (\<lambda>fd. fst (isEnabled fd n cfg)) (map functionDeclaration ts))"
      by simp
    show ?thesis
      using Resolved IsArray d found
      by (simp add: discoverTools_def mcpToTool_tool_def resolve_def reject_def)
  next
    case NotArray
    with Resolved show ?thesis
      by (simp add: discoverTools_def mcpToTool_tool_def resolve_def reject_def)
  qed
qed (simp_all add: discoverTools_def mcpToTool_tool_def resolve_def reject_def)

text \<open>
  Claim C2. Given the answer to the listing request: if its \<open>tools\<close> field is not an
  array, \<open>discoverTools\<close> rejects; if it is an array of which no declaration passes
  \<open>isEnabled\<close>, it rejects with the error about no enabled tools; otherwise it resolves
  with one \<open>DiscoveredMCPTool\<close> for each passing declaration and no other, in the order
  of the answer.
\<close>

theorem discoverTools_result:
  "(tools_list_outcome remote = Resolved NotArray \<longrightarrow>
      (\<exists>e. snd (discoverTools remote n cfg cl) = Rejected e))
   \<and> (tools_list_outcome remote = Resolved (IsArray ts) \<and> passing n cfg ts = [] \<longrightarrow>
      snd (discoverTools remote n cfg cl) =
        Rejected (Error ''Error discovering tools: Error: No enabled tools found''))
   \<and> (tools_list_outcome remote = Resolved (IsArray ts) \<and> passing n cfg ts \<noteq> [] \<longrightarrow>
      (\<exists>tools. snd (discoverTools remote n cfg cl) = Resolved tools
         \<and> tools = map (new_DiscoveredMCPTool cl n cfg) (passing n cfg ts)
         \<and> map tool_name tools = map fd_name (passing n cfg ts)))"
  by (simp add: discoverTools_outcome passing_def new_DiscoveredMCPTool_def comp_def)

theorem discoverTools_result_witness:
  "snd (discoverTools (remote_listing NotArray) ''srv'' no_config (new_Client ''srv'' no_config))
     = Rejected (Error
         ''Error discovering tools: TypeError: listResult.tools.map is not a function'')
   \<and> snd (discoverTools (remote_listing (IsArray three_tools)) ''srv''
            (no_config\<lparr> includeTools := Some [] \<rparr>) (new_Client ''srv'' no_config))
     = Rejected (Error ''Error discovering tools: Error: No enabled tools found'')
   \<and> map tool_name (case snd (discoverTools (remote_listing (IsArray three_tools)) ''srv''
            (no_config\<lparr> excludeTools := Some [''drop''] \<rparr>) (new_Client ''srv'' no_config)) of
         Resolved tools \<Rightarrow> tools | _ \<Rightarrow> [])
     = [Some ''read'', Some ''list'']"
  using discoverTools_result [of "remote_listing NotArray" "''srv''" no_config
      "new_Client ''srv'' no_config" three_tools]
    discoverTools_result [of "remote_listing (IsArray three_tools)" "''srv''"
      "no_config\<lparr> includeTools := Some [] \<rparr>" "new_Client ''srv'' no_config" three_tools]
    discoverTools_result [of "remote_listing (IsArray three_tools)" "''srv''"
      "no_config\<lparr> excludeTools := Some [''drop''] \<rparr>" "new_Client ''srv'' no_config"
      three_tools]
  by (simp add: remote_listing_def three_tools_def passing_def functionDeclaration_def
      isEnabled_def no_config_def discoverTools_outcome new_DiscoveredMCPTool_def)

subsection \<open>Child environment and tool timeout\<close>

text \<open>
  Claim C8. When the subprocess transport is the one built (no \<open>httpUrl\<close>, no
  \<open>url\<close>, a \<open>command\<close>), each variable of its environment has the descriptor's value
  if the descriptor's \<open>env\<close> gives one, the parent's value otherwise. Every tool that
  \<open>discoverTools\<close> returns carries the descriptor's timeout if there is one and
  \<open>MCP_DEFAULT_TIMEOUT_MSEC\<close> otherwise, which is ten minutes in milliseconds.
\<close>

theorem env_overlay_and_tool_timeout:
  "(\<not> truthy (httpUrl cfg) \<and> \<not> truthy (url cfg) \<and> truthy (command cfg) \<longrightarrow>
      (\<exists>p. createTransport pf n cfg = Inr (StdioClientTransport p)
         \<and> (\<forall>k. stdio_env p k =
               (case (case env cfg of None \<Rightarrow> None | Some e \<Rightarrow> e k) of
                  Some v \<Rightarrow> Some v
                | None \<Rightarrow> process_env pf k))))
   \<and> (snd (discoverTools remote n cfg cl) = Resolved tools \<longrightarrow>
        (\<forall>t \<in> set tools.
           tool_timeout t =
             (case timeout cfg of Some ms \<Rightarrow> ms | None \<Rightarrow> MCP_DEFAULT_TIMEOUT_MSEC)))
   \<and> MCP_DEFAULT_TIMEOUT_MSEC = 10 * 60 * 1000"
proof -
  have "\<forall>t \<in> set tools.
          tool_timeout t =
            (case timeout cfg of Some ms \<Rightarrow> ms | None \<Rightarrow> MCP_DEFAULT_TIMEOUT_MSEC)"
    if "snd (discoverTools remote n cfg cl) = Resolved tools"
    using that
    by (auto simp: discoverTools_outcome new_DiscoveredMCPTool_def timeout_or_default_def
        split: outcome.splits array_or_not.splits if_splits option.splits)
  then show ?thesis
    by (auto simp: createTransport_def child_env_def map_add_def MCP_DEFAULT_TIMEOUT_MSEC_def
        split: option.splits)
qed

theorem env_overlay_and_tool_timeout_witness:
  "(\<exists>p. createTransport example_platform ''srv''
            (no_config\<lparr> command := Some ''npx'',
                        env := Some [''HOME'' \<mapsto> ''/srv'', ''TOKEN'' \<mapsto> ''t''] \<rparr>)
          = Inr (StdioClientTransport p)
        \<and> stdio_env p ''HOME'' = Some ''/srv'' \<and> stdio_env p ''TOKEN'' = Some ''t''
        \<and> stdio_env p ''PATH'' = Some ''/bin'' \<and> stdio_env p ''OTHER'' = None)
   \<and> map tool_timeout (case snd (discoverTools (remote_listing (IsArray three_tools)) ''srv''
            (no_config\<lparr> timeout := Some 0 \<rparr>) (new_Client ''srv'' no_config)) of
         Resolved tools \<Rightarrow> tools | _ \<Rightarrow> []) = [0, 0, 0]
   \<and> map tool_timeout (case snd (discoverTools (remote_listing (IsArray three_tools)) ''srv''
            no_config (new_Client ''srv'' no_config)) of
         Resolved tools \<Rightarrow> tools | _ \<Rightarrow> []) = [600000, 600000, 600000]"
  using env_overlay_and_tool_timeout [of
      "no_config\<lparr> command := Some ''npx'',
                  env := Some [''HOME'' \<mapsto> ''/srv'', ''TOKEN'' \<mapsto> ''t''] \<rparr>"
      example_platform "''srv''" "remote_listing (IsArray three_tools)"
      "new_Client ''srv'' no_config"]
    env_overlay_and_tool_timeout [of "no_config\<lparr> timeout := Some 0 \<rparr>"
      example_platform "''srv''" "remote_listing (IsArray three_tools)"
      "new_Client ''srv'' no_config"]
  by (simp add: createTransport_def child_env_def example_platform_def no_config_def
      discoverTools_outcome remote_listing_def three_tools_def functionDeclaration_def
      isEnabled_def new_DiscoveredMCPTool_def timeout_or_default_def
      MCP_DEFAULT_TIMEOUT_MSEC_def)

subsection \<open>Running actions\<close>

lemma run_append: "run (xs @ ys) s = run ys (run xs s)"
  by (induction xs arbitrary: s) simp_all

lemma perform_unchanged:
  "statusChangeListeners (perform a s) = statusChangeListeners s"
  "mcpDiscoveryState (perform a s) = mcpDiscoveryState s"
  by (cases a; simp add: updateMCPServerStatus_def emit_def registerTool_def Let_def)+

lemma run_unchanged:
  "statusChangeListeners (run acts s) = statusChangeListeners s"
  "mcpDiscoveryState (run acts s) = mcpDiscoveryState s"
  by (induction acts arbitrary: s) (simp_all add: perform_unchanged)

lemma trace_perform:
  "trace (perform a s) = trace s @ action_events (statusChangeListeners s) a"
  by (cases a) (simp_all add: updateMCPServerStatus_def emit_def registerTool_def Let_def)

lemma trace_run:
  "trace (run acts s) = trace s @ concat (map (action_events (statusChangeListeners s)) acts)"
  by (induction acts arbitrary: s) (simp_all add: trace_perform perform_unchanged)

lemma events_in_trace:
  assumes "a \<in> set acts"
  shows "set (action_events (statusChangeListeners s) a) \<subseteq> set (trace (run acts s))"
  using assms by (auto simp: trace_run)

lemma status_perform:
  "mcpServerStatusesInternal (perform a s) n =
     (case status_write n a of None \<Rightarrow> mcpServerStatusesInternal s n | Some st \<Rightarrow> Some st)"
  by (cases a) (simp_all add: updateMCPServerStatus_def emit_def registerTool_def Let_def)

lemma status_writes_Cons:
  "status_writes n (a # acts) =
     (case status_write n a of None \<Rightarrow> status_writes n acts | Some st \<Rightarrow> st # status_writes n acts)"
  by (simp add: status_writes_def List.map_filter_def split: option.splits)

lemma status_writes_simps:
  "status_writes n [] = []"
  "status_writes n (UpdateStatus m st # acts) =
     (if m = n then st # status_writes n acts else status_writes n acts)"
  "status_writes n (Emit e # acts) = status_writes n acts"
  "status_writes n (RegisterTool t # acts) = status_writes n acts"
  by (simp_all add: status_writes_def List.map_filter_def)

lemma status_writes_append:
  "status_writes n (xs @ ys) = status_writes n xs @ status_writes n ys"
  by (simp add: status_writes_def List.map_filter_def)

lemma status_writes_emits:
  "list_all is_Emit acts \<Longrightarrow> status_writes n acts = []"
proof (induction acts)
  case Nil
  show ?case by (simp add: status_writes_def List.map_filter_def)
next
  case (Cons a acts)
  then show ?case by (cases a) (simp_all add: status_writes_Cons)
qed

lemma status_writes_register: "status_writes n (map RegisterTool tools) = []"
  by (induction tools) (simp_all add: status_writes_Cons, simp add: status_writes_def List.map_filter_def)

lemma status_writes_empty:
  "status_writes n acts = [] \<longleftrightarrow> (\<forall>a \<in> set acts. status_write n a = None)"
  by (auto simp: status_writes_def List.map_filter_def filter_empty_conv)

lemma status_run:
  "mcpServerStatusesInternal (run acts s) n =
     (if status_writes n acts = [] then mcpServerStatusesInternal s n
      else Some (last (status_writes n acts)))"
proof (induction acts arbitrary: s)
  case Nil
  show ?case by (simp add: status_writes_def List.map_filter_def)
next
  case (Cons a acts)
  show ?case
    by (simp add: Cons.IH status_perform status_writes_Cons split: option.splits)
qed

lemma registry_perform:
  "registry_tools s k \<noteq> None \<Longrightarrow> registry_tools (perform a s) k \<noteq> None"
  by (cases a) (simp_all add: updateMCPServerStatus_def emit_def registerTool_def Let_def)

lemma registry_run_keeps:
  "registry_tools s k \<noteq> None \<Longrightarrow> registry_tools (run acts s) k \<noteq> None"
proof (induction acts arbitrary: s)
  case Nil
  then show ?case by simp
next
  case (Cons a acts)
  from Cons.prems have "registry_tools (perform a s) k \<noteq> None"
    by (rule registry_perform)
  then have "registry_tools (run acts (perform a s)) k \<noteq> None"
    by (rule Cons.IH)
  then show ?case by simp
qed

lemma registry_run:
  "RegisterTool t \<in> set acts \<Longrightarrow> registry_tools (run acts s) (tool_name t) \<noteq> None"
proof (induction acts arbitrary: s)
  case Nil
  then show ?case by simp
next
  case (Cons a acts)
  show ?case
  proof (cases "a = RegisterTool t")
    case True
    have "registry_tools (perform a s) (tool_name t) \<noteq> None"
      using True by (simp add: registerTool_def emit_def Let_def)
    then have "registry_tools (run acts (perform a s)) (tool_name t) \<noteq> None"
      by (rule registry_run_keeps)
    then show ?thesis by simp
  next
    case False
    with Cons.prems have "RegisterTool t \<in> set acts" by simp
    then have "registry_tools (run acts (perform a s)) (tool_name t) \<noteq> None"
      by (rule Cons.IH)
    then show ?thesis by simp
  qed
qed

subsection \<open>The actions of one pipeline\<close>

lemma connectToMcpServer_shape:
  "list_all is_Emit (fst (connectToMcpServer pf remote n cfg))
   \<and> (\<forall>cl. snd (connectToMcpServer pf remote n cfg) = Resolved cl \<longrightarrow> cl = new_Client n cfg)"
proof (cases "createTransport pf n cfg")
  case (Inl e)
  then show ?thesis
    by (simp add: connectToMcpServer_def reject_def)
next
  case (Inr transport)
  show ?thesis
  proof (cases "connect_outcome remote")
    case (Rejected e)
    with Inr show ?thesis
      by (cases "transport_close_outcome remote")
         (simp_all add: connectToMcpServer_def reject_def resolve_def)
  qed (simp_all add: Inr connectToMcpServer_def reject_def resolve_def)
qed

lemma connectToMcpServer_outcome:
  "snd (connectToMcpServer pf remote n cfg) =
     (case createTransport pf n cfg of
        Inl e \<Rightarrow> Rejected (Error (conciseError n e))
      | Inr transport \<Rightarrow>
          (case connect_outcome remote of
             Resolved _ \<Rightarrow> Resolved (new_Client n cfg)
           | Never \<Rightarrow> Never
           | Rejected e \<Rightarrow>
               (case transport_close_outcome remote of
                  Resolved _ \<Rightarrow> Rejected (Error (conciseError n e))
                | Rejected e' \<Rightarrow> Rejected (Error (conciseError n e'))
                | Never \<Rightarrow> Never)))"
proof (cases "createTransport pf n cfg")
  case (Inl e)
  then show ?thesis
    by (simp add: connectToMcpServer_def reject_def)
next
  case (Inr transport)
  show ?thesis
  proof (cases "connect_outcome remote")
    case (Rejected e)
    with Inr show ?thesis
      by (cases "transport_close_outcome remote")
         (simp_all add: connectToMcpServer_def reject_def resolve_def)
  qed (simp_all add: Inr connectToMcpServer_def reject_def resolve_def)
qed

lemma discoverTools_emits:
  "list_all is_Emit (fst (discoverTools remote n cfg cl))"
proof (cases "tools_list_outcome remote")
  case (Resolved tools)
  show ?thesis
  proof (cases tools)
    case (IsArray ts)
    obtain found ws where d: "discoveredTools n cfg cl (map functionDeclaration ts) = (found, ws)"
      by (cases "discoveredTools n cfg cl (map functionDeclaration ts)")
    show ?thesis
      using Resolved IsArray d
      by (simp add: discoverTools_def mcpToTool_tool_def resolve_def reject_def list_all_iff)
  next
    case NotArray
    with Resolved show ?thesis
      by (simp add: discoverTools_def mcpToTool_tool_def resolve_def reject_def)
  qed
qed (simp_all add: discoverTools_def mcpToTool_tool_def resolve_def reject_def)

lemma connectAndDiscover_shape:
  "connectAndDiscover pf remote n cfg =
     (case connectToMcpServer pf remote n cfg of
        (ca, Never) \<Rightarrow> (UpdateStatus n CONNECTING # ca, Never)
      | (ca, Rejected e) \<Rightarrow>
          (UpdateStatus n CONNECTING # ca
             @ [Emit (ConsoleError (error_line n e)), UpdateStatus n DISCONNECTED], Resolved ())
      | (ca, Resolved cl) \<Rightarrow>
          (case discoverTools remote n cfg cl of
             (da, Never) \<Rightarrow>
               (UpdateStatus n CONNECTING # ca
                  @ [UpdateStatus n CONNECTED, Emit (OnErrorSet n)] @ da, Never)
           | (da, Rejected e) \<Rightarrow>
               (UpdateStatus n CONNECTING # ca
                  @ [UpdateStatus n CONNECTED, Emit (OnErrorSet n)] @ da
                  @ [Emit (ClientClose n), Emit (ConsoleError (error_line n e)),
                     UpdateStatus n DISCONNECTED], Resolved ())
           | (da, Resolved tools) \<Rightarrow>
               (UpdateStatus n CONNECTING # ca
                  @ [UpdateStatus n CONNECTED, Emit (OnErrorSet n)] @ da
                  @ map RegisterTool tools, Resolved ())))"
proof (cases "connectToMcpServer pf remote n cfg")
  case (Pair ca co)
  show ?thesis
  proof (cases co)
    case (Resolved cl)
    obtain da dout where d: "discoverTools remote n cfg cl = (da, dout)"
      by (cases "discoverTools remote n cfg cl")
    show ?thesis
      using Pair Resolved d
      by (cases dout)
         (simp_all add: connectAndDiscover_def act_def reject_def error_line_def)
  qed (simp_all add: Pair connectAndDiscover_def act_def reject_def error_line_def)
qed

lemma connectAndDiscover_settles:
  "snd (connectAndDiscover pf remote n cfg) =
     (case snd (connectToMcpServer pf remote n cfg) of
        Never \<Rightarrow> Never
      | Rejected e \<Rightarrow> Resolved ()
      | Resolved cl \<Rightarrow>
          (case snd (discoverTools remote n cfg cl) of Never \<Rightarrow> Never | _ \<Rightarrow> Resolved ()))"
  by (simp add: connectAndDiscover_shape split: prod.splits outcome.splits)

lemma connectAndDiscover_outcome:
  "snd (connectAndDiscover pf remote n cfg) = Resolved ()
   \<or> snd (connectAndDiscover pf remote n cfg) = Never"
  by (simp add: connectAndDiscover_shape split: prod.splits outcome.splits)

lemma connectAndDiscover_status_writes:
  "status_writes m (fst (connectAndDiscover pf remote n cfg)) =
     (if m \<noteq> n then []
      else CONNECTING #
        (case snd (connectToMcpServer pf remote n cfg) of
           Never \<Rightarrow> []
         | Rejected e \<Rightarrow> [DISCONNECTED]
         | Resolved cl \<Rightarrow>
             CONNECTED # (case snd (discoverTools remote n cfg cl) of
                            Rejected e \<Rightarrow> [DISCONNECTED] | _ \<Rightarrow> [])))"
proof -
  obtain ca co where c: "connectToMcpServer pf remote n cfg = (ca, co)"
    by (cases "connectToMcpServer pf remote n cfg")
  have ca: "status_writes k ca = []" for k
    using connectToMcpServer_shape [of pf remote n cfg] c by (simp add: status_writes_emits)
  show ?thesis
  proof (cases co)
    case (Resolved cl)
    obtain da dout where d: "discoverTools remote n cfg cl = (da, dout)"
      by (cases "discoverTools remote n cfg cl")
    have da: "status_writes k da = []" for k
      using discoverTools_emits [of remote n cfg cl] d by (simp add: status_writes_emits)
    show ?thesis
      using c Resolved d ca da
      by (cases dout)
         (simp_all add: connectAndDiscover_shape status_writes_simps status_writes_append
            status_writes_register)
  qed (simp_all add: c ca connectAndDiscover_shape status_writes_simps status_writes_append)
qed

lemma connectAndDiscover_actions:
  "(pipeline_error pf remote n cfg = Some e \<longrightarrow>
      Emit (ConsoleError (error_line n e)) \<in> set (fst (connectAndDiscover pf remote n cfg)))
   \<and> (pipeline_tools pf remote n cfg = Some tools \<longrightarrow>
      RegisterTool ` set tools \<subseteq> set (fst (connectAndDiscover pf remote n cfg)))"
  by (auto simp: connectAndDiscover_shape pipeline_error_def pipeline_tools_def
      split: prod.splits outcome.splits)

text \<open>
  Claim C9. When a server's pipeline fails, in the connect step or in discovery after a
  successful connect, \<open>connectAndDiscover\<close> still resolves, the status it leaves for
  the server is \<open>DISCONNECTED\<close>, and the last things it does are the error line, the
  write of \<open>DISCONNECTED\<close> and the calls of the listeners with it. When the failure
  is in discovery, closing the client comes right before those.
\<close>

theorem connectAndDiscover_failure_disconnects:
  "pipeline_error pf remote n cfg = Some e \<longrightarrow>
     snd (connectAndDiscover pf remote n cfg) = Resolved ()
   \<and> mcpServerStatusesInternal (run (fst (connectAndDiscover pf remote n cfg)) s) n
        = Some DISCONNECTED
   \<and> (\<exists>before. trace (run (fst (connectAndDiscover pf remote n cfg)) s) =
         trace s @ before @ [ConsoleError (error_line n e), StatusSet n DISCONNECTED]
           @ map (\<lambda>l. ListenerCalled l n DISCONNECTED) (statusChangeListeners s))
   \<and> (\<forall>cl. snd (connectToMcpServer pf remote n cfg) = Resolved cl \<longrightarrow>
        (\<exists>before. trace (run (fst (connectAndDiscover pf remote n cfg)) s) =
           trace s @ before
             @ [ClientClose n, ConsoleError (error_line n e), StatusSet n DISCONNECTED]
             @ map (\<lambda>l. ListenerCalled l n DISCONNECTED) (statusChangeListeners s)))"
proof
  assume err: "pipeline_error pf remote n cfg = Some e"
  let ?acts = "fst (connectAndDiscover pf remote n cfg)"
  let ?tail = "[ConsoleError (error_line n e), StatusSet n DISCONNECTED]
           @ map (\<lambda>l. ListenerCalled l n DISCONNECTED) (statusChangeListeners s)"
  have out: "snd (connectAndDiscover pf remote n cfg) = Resolved ()"
    using err by (auto simp: connectAndDiscover_settles pipeline_error_def split: outcome.splits)
  have "status_writes n ?acts \<noteq> [] \<and> last (status_writes n ?acts) = DISCONNECTED"
    using err by (auto simp: connectAndDiscover_status_writes pipeline_error_def
        split: outcome.splits)
  then have st: "mcpServerStatusesInternal (run ?acts s) n = Some DISCONNECTED"
    by (simp add: status_run)
  have ends: "\<exists>pre. ?acts = pre @ [Emit (ConsoleError (error_line n e)), UpdateStatus n DISCONNECTED]"
    using err
    by (auto simp: connectAndDiscover_shape pipeline_error_def split: prod.splits outcome.splits)
  have closes: "\<exists>pre. ?acts = pre @ [Emit (ClientClose n), Emit (ConsoleError (error_line n e)),
                   UpdateStatus n DISCONNECTED]"
    if "snd (connectToMcpServer pf remote n cfg) = Resolved cl" for cl
    using err that
    by (auto simp: connectAndDiscover_shape pipeline_error_def split: prod.splits outcome.splits)
  have t1: "\<exists>before. trace (run ?acts s) = trace s @ before @ ?tail"
  proof -
    from ends obtain pre where
      "?acts = pre @ [Emit (ConsoleError (error_line n e)), UpdateStatus n DISCONNECTED]" ..
    then have "trace (run ?acts s) =
        trace s @ concat (map (action_events (statusChangeListeners s)) pre) @ ?tail"
      by (simp add: trace_run)
    then show ?thesis by blast
  qed
  have t2: "\<exists>before. trace (run ?acts s) = trace s @ before @ ClientClose n # ?tail"
    if "snd (connectToMcpServer pf remote n cfg) = Resolved cl" for cl
  proof -
    from closes [OF that] obtain pre where
      "?acts = pre @ [Emit (ClientClose n), Emit (ConsoleError (error_line n e)),
                   UpdateStatus n DISCONNECTED]" ..
    then have "trace (run ?acts s) =
        trace s @ concat (map (action_events (statusChangeListeners s)) pre) @ ClientClose n # ?tail"
      by (simp add: trace_run)
    then show ?thesis by blast
  qed
  show "snd (connectAndDiscover pf remote n cfg) = Resolved ()
   \<and> mcpServerStatusesInternal (run (fst (connectAndDiscover pf remote n cfg)) s) n
        = Some DISCONNECTED
   \<and> (\<exists>before. trace (run (fst (connectAndDiscover pf remote n cfg)) s) =
         trace s @ before @ [ConsoleError (error_line n e), StatusSet n DISCONNECTED]
           @ map (\<lambda>l. ListenerCalled l n DISCONNECTED) (statusChangeListeners s))
   \<and> (\<forall>cl. snd (connectToMcpServer pf remote n cfg) = Resolved cl \<longrightarrow>
        (\<exists>before. trace (run (fst (connectAndDiscover pf remote n cfg)) s) =
           trace s @ before
             @ [ClientClose n, ConsoleError (error_line n e), StatusSet n DISCONNECTED]
             @ map (\<lambda>l. ListenerCalled l n DISCONNECTED) (statusChangeListeners s)))"
    using out st t1 t2 by simp
qed

theorem connectAndDiscover_failure_disconnects_witness:
  "pipeline_error example_platform (remote_listing (IsArray [])) ''B'' sse_config
     = Some (Error ''Error discovering tools: Error: No enabled tools found'')
   \<and> mcpServerStatusesInternal
        (run (fst (connectAndDiscover example_platform (remote_listing (IsArray [])) ''B''
                sse_config)) (addMCPStatusChangeListener 4 initial_state)) ''B''
       = Some DISCONNECTED
   \<and> trace (run (fst (connectAndDiscover example_platform (remote_listing (IsArray [])) ''B''
                sse_config)) (addMCPStatusChangeListener 4 initial_state))
       = [StatusSet ''B'' CONNECTING, ListenerCalled 4 ''B'' CONNECTING,
          ClientConnect ''B'' (SSEClientTransport ''http://b/sse'' None)
            \<lparr> opt_timeout = Some 600000 \<rparr>,
          StatusSet ''B'' CONNECTED, ListenerCalled 4 ''B'' CONNECTED,
          OnErrorSet ''B'',
          ClientRequest ''B'' ''tools/list'' [] None,
          ClientClose ''B'',
          ConsoleError (error_line ''B''
            (Error ''Error discovering tools: Error: No enabled tools found'')),
          StatusSet ''B'' DISCONNECTED, ListenerCalled 4 ''B'' DISCONNECTED]"
proof -
  have err: "pipeline_error example_platform (remote_listing (IsArray [])) ''B'' sse_config
     = Some (Error ''Error discovering tools: Error: No enabled tools found'')"
    by (simp add: pipeline_error_def connectToMcpServer_outcome discoverTools_outcome
        createTransport_def new_URL_def startsWith_def example_platform_def sse_config_def
        no_config_def remote_listing_def)
  have acts: "fst (connectAndDiscover example_platform (remote_listing (IsArray [])) ''B''
                sse_config)
      = [UpdateStatus ''B'' CONNECTING,
         Emit (ClientConnect ''B'' (SSEClientTransport ''http://b/sse'' None)
            \<lparr> opt_timeout = Some 600000 \<rparr>),
         UpdateStatus ''B'' CONNECTED, Emit (OnErrorSet ''B''),
         Emit (ClientRequest ''B'' ''tools/list'' [] None),
         Emit (ClientClose ''B''),
         Emit (ConsoleError (error_line ''B''
            (Error ''Error discovering tools: Error: No enabled tools found''))),
         UpdateStatus ''B'' DISCONNECTED]"
    by (simp add: connectAndDiscover_def connectToMcpServer_def discoverTools_def
        mcpToTool_tool_def createTransport_def new_URL_def startsWith_def example_platform_def
        sse_config_def no_config_def remote_listing_def act_def resolve_def reject_def
        error_line_def timeout_or_default_def MCP_DEFAULT_TIMEOUT_MSEC_def new_Client_def)
  show ?thesis
    using connectAndDiscover_failure_disconnects [of example_platform
        "remote_listing (IsArray [])" "''B''" sse_config
        "Error ''Error discovering tools: Error: No enabled tools found''"
        "addMCPStatusChangeListener 4 initial_state"] err
    by (simp add: acts updateMCPServerStatus_def emit_def addMCPStatusChangeListener_def
        initial_state_def)
qed

subsection \<open>All pipelines together\<close>

lemma settled_rejection_None:
  assumes "\<forall>e. Rejected e \<notin> snd ` set tasks"
  shows "settled_rejection tasks = None"
proof -
  have "List.map_filter
          (\<lambda>task. case task of ([], Rejected e) \<Rightarrow> Some e | _ \<Rightarrow> None) tasks = []"
    using assms
    by (induction tasks)
       (force simp: List.map_filter_def split: list.splits outcome.splits)+
  then show ?thesis
    by (simp add: settled_rejection_def)
qed

lemma snd_advance:
  assumes "i < length tasks"
  shows "map snd (advance i tasks) = map snd tasks"
proof -
  have "map snd (advance i tasks) = (map snd tasks)[i := (map snd tasks) ! i]"
    using assms by (simp add: advance_def map_update)
  then show ?thesis by simp
qed

lemma pick_pending:
  assumes "pending tasks \<noteq> []"
  shows "pick schedule (pending tasks) < length tasks"
    and "fst (tasks ! pick schedule (pending tasks)) \<noteq> []"
proof -
  have "pick schedule (pending tasks) \<in> set (pending tasks)"
    using assms by (cases schedule) (simp_all add: pick_def)
  then show "pick schedule (pending tasks) < length tasks"
    and "fst (tasks ! pick schedule (pending tasks)) \<noteq> []"
    by (auto simp: pending_def)
qed

lemma Promise_all_interleaves:
  assumes "\<forall>e. Rejected e \<notin> snd ` set tasks"
  shows "\<exists>order.
           Promise_all schedule tasks s =
             (if \<forall>out \<in> snd ` set tasks. out = Resolved () then Resolved () else Never,
              run (map snd order) s)
           \<and> (\<forall>k < length tasks. map snd (filter (\<lambda>p. fst p = k) order) = fst (tasks ! k))
           \<and> (\<forall>p \<in> set order. fst p < length tasks)"
  using assms
proof (induction schedule tasks s rule: Promise_all.induct)
  case (1 schedule tasks s)
  have none: "settled_rejection tasks = None"
    using "1.prems" by (rule settled_rejection_None)
  have all: "list_all (\<lambda>task. snd task = Resolved ()) tasks
               = (\<forall>out \<in> snd ` set tasks. out = Resolved ())"
    by (auto simp: list_all_iff)
  show ?case
  proof (cases "pending tasks = []")
    case True
    then have "\<forall>k < length tasks. fst (tasks ! k) = []"
      by (auto simp: pending_def filter_empty_conv)
    then show ?thesis
      using none True all
      by (intro exI [of _ "[]"]) (simp add: Promise_all.simps [of schedule tasks s])
  next
    case False
    define i where "i = pick schedule (pending tasks)"
    have i: "i < length tasks" and ne: "fst (tasks ! i) \<noteq> []"
      using pick_pending [OF False, of schedule] by (simp_all add: i_def)
    obtain a rest where ar: "fst (tasks ! i) = a # rest"
      using ne by (cases "fst (tasks ! i)") auto
    have snds: "snd ` set (advance i tasks) = snd ` set tasks"
      using snd_advance [OF i] by (metis set_map)
    have "\<forall>e. Rejected e \<notin> snd ` set (advance i tasks)"
      using "1.prems" snds by simp
    from "1.IH" [OF none False i_def this]
    obtain order where
      res: "Promise_all (tl schedule) (advance i tasks) (perform (hd (fst (tasks ! i))) s) =
             (if \<forall>out \<in> snd ` set (advance i tasks). out = Resolved () then Resolved () else Never,
              run (map snd order) (perform (hd (fst (tasks ! i))) s))"
      and proj: "\<forall>k < length (advance i tasks).
                   map snd (filter (\<lambda>p. fst p = k) order) = fst (advance i tasks ! k)"
      and bound: "\<forall>p \<in> set order. fst p < length (advance i tasks)"
      by blast
    have step: "Promise_all schedule tasks s =
                  Promise_all (tl schedule) (advance i tasks) (perform (hd (fst (tasks ! i))) s)"
      using none False by (simp add: Promise_all.simps [of schedule tasks s] i_def Let_def)
    have len: "length (advance i tasks) = length tasks"
      by (simp add: advance_def)
    have "\<forall>k < length tasks.
            map snd (filter (\<lambda>p. fst p = k) ((i, a) # order)) = fst (tasks ! k)"
    proof (intro allI impI)
      fix k assume k: "k < length tasks"
      show "map snd (filter (\<lambda>p. fst p = k) ((i, a) # order)) = fst (tasks ! k)"
      proof (cases "k = i")
        case True
        with proj k i ar len show ?thesis
          by (simp add: advance_def)
      next
        case False
        with proj k len show ?thesis
          by (simp add: advance_def)
      qed
    qed
    moreover have "\<forall>p \<in> set ((i, a) # order). fst p < length tasks"
      using bound len i by simp
    moreover have "Promise_all schedule tasks s =
             (if \<forall>out \<in> snd ` set tasks. out = Resolved () then Resolved () else Never,
              run (map snd ((i, a) # order)) s)"
      using step res snds ar by simp
    ultimately show ?thesis
      by blast
  qed
qed

lemma map_filter_projection:
  assumes "\<forall>p \<in> set order. fst p \<noteq> k \<longrightarrow> f (snd p) = None"
  shows "List.map_filter f (map snd order)
           = List.map_filter f (map snd (filter (\<lambda>p. fst p = k) order))"
  using assms by (induction order) (auto simp: List.map_filter_def)

lemma Promise_all_pipelines:
  assumes dist: "distinct (map fst servers)"
  shows "\<exists>acts.
           Promise_all schedule
             (map (\<lambda>(n, cfg). connectAndDiscover pf (remote n) n cfg) servers) s =
             (if \<forall>(n, cfg) \<in> set servers. snd (connectAndDiscover pf (remote n) n cfg) \<noteq> Never
              then Resolved () else Never,
              run acts s)
           \<and> (\<forall>(n, cfg) \<in> set servers.
                 status_writes n acts = status_writes n (fst (connectAndDiscover pf (remote n) n cfg))
                 \<and> set (fst (connectAndDiscover pf (remote n) n cfg)) \<subseteq> set acts)"
proof -
  define task where "task = (\<lambda>(n, cfg). connectAndDiscover pf (remote n) n cfg)"
  let ?tasks = "map task servers"
  have outs: "snd (task sv) = Resolved () \<or> snd (task sv) = Never" for sv
    using connectAndDiscover_outcome by (cases sv) (simp add: task_def)
  have norej: "\<forall>e. Rejected e \<notin> snd ` set ?tasks"
  proof (intro allI notI)
    fix e assume "Rejected e \<in> snd ` set ?tasks"
    then obtain sv where "snd (task sv) = Rejected e" by auto
    with outs [of sv] show False by simp
  qed
  from Promise_all_interleaves [OF norej, of schedule s]
  obtain order where
    res: "Promise_all schedule ?tasks s =
            (if \<forall>out \<in> snd ` set ?tasks. out = Resolved () then Resolved () else Never,
             run (map snd order) s)"
    and proj: "\<forall>k < length ?tasks. map snd (filter (\<lambda>p. fst p = k) order) = fst (?tasks ! k)"
    and bound: "\<forall>p \<in> set order. fst p < length ?tasks"
    by blast
  have settle: "(\<forall>out \<in> snd ` set ?tasks. out = Resolved ())
                 \<longleftrightarrow> (\<forall>(n, cfg) \<in> set servers.
                        snd (connectAndDiscover pf (remote n) n cfg) \<noteq> Never)"
  proof
    assume a: "\<forall>out \<in> snd ` set ?tasks. out = Resolved ()"
    show "\<forall>(n, cfg) \<in> set servers. snd (connectAndDiscover pf (remote n) n cfg) \<noteq> Never"
    proof (clarify)
      fix n cfg assume "(n, cfg) \<in> set servers"
        and nv: "snd (connectAndDiscover pf (remote n) n cfg) = Never"
      then have "snd (task (n, cfg)) \<in> snd ` set ?tasks" by force
      with a have "snd (task (n, cfg)) = Resolved ()" by blast
      with nv show False by (simp add: task_def)
    qed
  next
    assume a: "\<forall>(n, cfg) \<in> set servers. snd (connectAndDiscover pf (remote n) n cfg) \<noteq> Never"
    show "\<forall>out \<in> snd ` set ?tasks. out = Resolved ()"
    proof
      fix out assume "out \<in> snd ` set ?tasks"
      then obtain sv where sv: "sv \<in> set servers" and out: "out = snd (task sv)" by auto
      with a have "snd (task sv) \<noteq> Never" by (cases sv) (auto simp: task_def)
      with outs [of sv] out show "out = Resolved ()" by simp
    qed
  qed
  have each: "status_writes n (map snd order)
                = status_writes n (fst (connectAndDiscover pf (remote n) n cfg))
              \<and> set (fst (connectAndDiscover pf (remote n) n cfg)) \<subseteq> set (map snd order)"
    if mem: "(n, cfg) \<in> set servers" for n cfg
  proof -
    from mem obtain k where k: "k < length servers" and sk: "servers ! k = (n, cfg)"
      by (auto simp: in_set_conv_nth)
    have tk: "fst (?tasks ! k) = fst (connectAndDiscover pf (remote n) n cfg)"
      using k sk by (simp add: task_def)
    have pk: "map snd (filter (\<lambda>p. fst p = k) order)
                = fst (connectAndDiscover pf (remote n) n cfg)"
      using proj k tk by simp
    have others: "\<forall>p \<in> set order. fst p \<noteq> k \<longrightarrow> status_write n (snd p) = None"
    proof (intro ballI impI)
      fix p assume p: "p \<in> set order" and ne: "fst p \<noteq> k"
      define j where "j = fst p"
      have j: "j < length servers" using bound p by (simp add: j_def)
      obtain n' cfg' where sj: "servers ! j = (n', cfg')" by (cases "servers ! j")
      have "n' \<noteq> n"
      proof
        assume "n' = n"
        then have "map fst servers ! j = map fst servers ! k"
          using j k sj sk by simp
        then have "j = k"
          using nth_eq_iff_index_eq [OF dist, of j k] j k by simp
        with ne show False by (simp add: j_def)
      qed
      then have "status_writes n (fst (connectAndDiscover pf (remote n') n' cfg')) = []"
        by (simp add: connectAndDiscover_status_writes)
      moreover have "snd p \<in> set (fst (connectAndDiscover pf (remote n') n' cfg'))"
      proof -
        have "snd p \<in> set (map snd (filter (\<lambda>q. fst q = j) order))"
          using p by (force simp: j_def)
        also have "map snd (filter (\<lambda>q. fst q = j) order) = fst (?tasks ! j)"
          using proj j by simp
        also have "fst (?tasks ! j) = fst (connectAndDiscover pf (remote n') n' cfg')"
          using j sj by (simp add: task_def)
        finally show ?thesis .
      qed
      ultimately show "status_write n (snd p) = None"
        by (simp add: status_writes_empty)
    qed
    have "status_writes n (map snd order)
            = status_writes n (map snd (filter (\<lambda>p. fst p = k) order))"
      unfolding status_writes_def using others by (rule map_filter_projection)
    moreover have "set (map snd (filter (\<lambda>p. fst p = k) order)) \<subseteq> set (map snd order)"
      by auto
    ultimately show ?thesis
      using pk by simp
  qed
  show ?thesis
    unfolding task_def [symmetric]
    using res settle each
    by (intro exI [of _ "map snd order"]) auto
qed

lemma populate_distinct:
  assumes "distinct (map fst mcpServers)"
    and "populateMcpServerCommand pf mcpServers mcpServerCommand = Inr servers"
  shows "distinct (map fst servers)"
  using assms
  by (auto simp: populateMcpServerCommand_def Let_def distinct_set_property split: if_splits)

text \<open>
  Claim C10. When the ad-hoc command does not tokenize, \<open>discoverMcpTools\<close> rejects
  with the tokenizer error, the phase has been set to \<open>IN_PROGRESS\<close> and then to
  \<open>COMPLETED\<close>, and nothing else has happened: no status was written, no listener
  called, no connection attempted.
\<close>

theorem discoverMcpTools_tokenization_failure:
  "cmd \<noteq> [] \<and> \<not> list_all is_Str (parse pf cmd (process_env pf)) \<longrightarrow>
     discoverMcpTools pf remote schedule mcpServers (Some cmd) s =
       (Rejected (Error (''failed to parse mcpServerCommand: '' @ cmd)),
        s\<lparr> mcpDiscoveryState := COMPLETED,
           trace := trace s @ [DiscoveryStateSet IN_PROGRESS, DiscoveryStateSet COMPLETED] \<rparr>)"
  by (simp add: discoverMcpTools_def populateMcpServerCommand_def setDiscoveryState_def
      Let_def list_ex_iff list_all_iff)

theorem discoverMcpTools_tokenization_failure_witness:
  "discoverMcpTools example_platform three_remotes [1, 0] three_servers (Some ''cat | grep'')
      initial_state =
     (Rejected (Error ''failed to parse mcpServerCommand: cat | grep''),
      initial_state\<lparr> mcpDiscoveryState := COMPLETED,
        trace := [DiscoveryStateSet IN_PROGRESS, DiscoveryStateSet COMPLETED] \<rparr>)
   \<and> getMCPServerStatus ''A''
        (snd (discoverMcpTools example_platform three_remotes [1, 0] three_servers
               (Some ''cat | grep'') initial_state)) = DISCONNECTED
   \<and> mcpServerStatusesInternal
        (snd (discoverMcpTools example_platform three_remotes [1, 0] three_servers
               (Some ''cat | grep'') initial_state)) = Map.empty"
  using discoverMcpTools_tokenization_failure [of "''cat | grep''" example_platform
      three_remotes "[1, 0]" three_servers initial_state]
  by (simp add: example_platform_def example_token_def initial_state_def getMCPServerStatus_def)

text \<open>
  Claim C1. Take a server map (an object, so its names are distinct) and an ad-hoc
  command that tokenizes or is absent. Whatever the servers do and in whatever order
  the pipelines are interleaved, \<open>discoverMcpTools\<close> does not reject; it resolves
  exactly when every pipeline settles, and then the phase is \<open>COMPLETED\<close>. In the
  state it leaves, every server whose pipeline failed is \<open>DISCONNECTED\<close> and has its
  error line on the console, and every server whose pipeline went through is
  \<open>CONNECTED\<close> and has had \<open>registerTool\<close> called for each of its tools, each of
  which has an entry under its name in the registry.
\<close>

theorem discoverMcpTools_isolates_failures:
  assumes "distinct (map fst mcpServers)"
    and "populateMcpServerCommand pf mcpServers mcpServerCommand = Inr servers"
    and "discoverMcpTools pf remote schedule mcpServers mcpServerCommand s = (out, s')"
  shows "(\<forall>e. out \<noteq> Rejected e)
     \<and> (out = Resolved () \<longleftrightarrow>
          (\<forall>(n, cfg) \<in> set servers. snd (connectAndDiscover pf (remote n) n cfg) \<noteq> Never))
     \<and> (out = Resolved () \<longrightarrow> mcpDiscoveryState s' = COMPLETED)
     \<and> (\<forall>(n, cfg) \<in> set servers.
          (\<forall>e. pipeline_error pf (remote n) n cfg = Some e \<longrightarrow>
                mcpServerStatusesInternal s' n = Some DISCONNECTED
              \<and> ConsoleError (error_line n e) \<in> set (trace s'))
        \<and> (\<forall>tools. pipeline_tools pf (remote n) n cfg = Some tools \<longrightarrow>
                mcpServerStatusesInternal s' n = Some CONNECTED
              \<and> (\<forall>t \<in> set tools. RegisterToolCalled t \<in> set (trace s')
                                 \<and> registry_tools s' (tool_name t) \<noteq> None)))"
proof -
  define s1 where "s1 = setDiscoveryState IN_PROGRESS s"
  define settle where
    "settle \<longleftrightarrow> (\<forall>(n, cfg) \<in> set servers. snd (connectAndDiscover pf (remote n) n cfg) \<noteq> Never)"
  have dist: "distinct (map fst servers)"
    using assms(1,2) by (rule populate_distinct)
  from Promise_all_pipelines [OF dist, of schedule pf remote s1]
  obtain acts where
    res: "Promise_all schedule
            (map (\<lambda>(n, cfg). connectAndDiscover pf (remote n) n cfg) servers) s1
          = (if settle then Resolved () else Never, run acts s1)"
    and each: "\<forall>(n, cfg) \<in> set servers.
                 status_writes n acts = status_writes n (fst (connectAndDiscover pf (remote n) n cfg))
                 \<and> set (fst (connectAndDiscover pf (remote n) n cfg)) \<subseteq> set acts"
    unfolding settle_def by blast
  have out: "out = (if settle then Resolved () else Never)"
    and s': "s' = (if settle then setDiscoveryState COMPLETED (run acts s1) else run acts s1)"
    using assms(2,3) res by (auto simp: discoverMcpTools_def s1_def Let_def split: if_splits)
  have status: "mcpServerStatusesInternal s' = mcpServerStatusesInternal (run acts s1)"
    and tr: "set (trace (run acts s1)) \<subseteq> set (trace s')"
    and reg: "registry_tools s' = registry_tools (run acts s1)"
    by (auto simp: s' setDiscoveryState_def)
  have per: "(\<forall>e. pipeline_error pf (remote n) n cfg = Some e \<longrightarrow>
                mcpServerStatusesInternal s' n = Some DISCONNECTED
              \<and> ConsoleError (error_line n e) \<in> set (trace s'))
        \<and> (\<forall>tools. pipeline_tools pf (remote n) n cfg = Some tools \<longrightarrow>
                mcpServerStatusesInternal s' n = Some CONNECTED
              \<and> (\<forall>t \<in> set tools. RegisterToolCalled t \<in> set (trace s')
                                 \<and> registry_tools s' (tool_name t) \<noteq> None))"
    if mem: "(n, cfg) \<in> set servers" for n cfg
  proof -
    let ?p = "connectAndDiscover pf (remote n) n cfg"
    from each mem have sw: "status_writes n acts = status_writes n (fst ?p)"
      and sub: "set (fst ?p) \<subseteq> set acts"
      by auto
    have failed: "mcpServerStatusesInternal s' n = Some DISCONNECTED
                  \<and> ConsoleError (error_line n e) \<in> set (trace s')"
      if e: "pipeline_error pf (remote n) n cfg = Some e" for e
    proof -
      have "status_writes n acts \<noteq> [] \<and> last (status_writes n acts) = DISCONNECTED"
        using e by (auto simp: sw connectAndDiscover_status_writes pipeline_error_def
            split: outcome.splits)
      then have "mcpServerStatusesInternal s' n = Some DISCONNECTED"
        by (simp add: status status_run)
      moreover have "Emit (ConsoleError (error_line n e)) \<in> set acts"
        using connectAndDiscover_actions [of pf "remote n" n cfg e] e sub by auto
      then have "ConsoleError (error_line n e) \<in> set (trace (run acts s1))"
        using events_in_trace [of "Emit (ConsoleError (error_line n e))" acts s1] by simp
      ultimately show ?thesis using tr by auto
    qed
    have worked: "mcpServerStatusesInternal s' n = Some CONNECTED
              \<and> (\<forall>t \<in> set tools. RegisterToolCalled t \<in> set (trace s')
                                 \<and> registry_tools s' (tool_name t) \<noteq> None)"
      if t: "pipeline_tools pf (remote n) n cfg = Some tools" for tools
    proof -
      have "status_writes n acts \<noteq> [] \<and> last (status_writes n acts) = CONNECTED"
        using t by (auto simp: sw connectAndDiscover_status_writes pipeline_tools_def
            split: outcome.splits)
      then have "mcpServerStatusesInternal s' n = Some CONNECTED"
        by (simp add: status status_run)
      moreover have "RegisterToolCalled t \<in> set (trace s')
                     \<and> registry_tools s' (tool_name t) \<noteq> None"
        if "t \<in> set tools" for t
      proof -
        have in_acts: "RegisterTool t \<in> set acts"
          using connectAndDiscover_actions [of pf "remote n" n cfg _ tools] \<open>t \<in> set tools\<close>
            \<open>pipeline_tools pf (remote n) n cfg = Some tools\<close> sub
          by auto
        then have "RegisterToolCalled t \<in> set (trace (run acts s1))"
          using events_in_trace [of "RegisterTool t" acts s1] by simp
        with tr in_acts show ?thesis
          by (auto simp: reg registry_run)
      qed
      ultimately show ?thesis by blast
    qed
    from failed worked show ?thesis by blast
  qed
  have "mcpDiscoveryState s' = COMPLETED" if "out = Resolved ()"
    using that out by (auto simp: s' setDiscoveryState_def split: if_splits)
  moreover have "\<forall>e. out \<noteq> Rejected e"
    by (simp add: out)
  moreover have "out = Resolved () \<longleftrightarrow> settle"
    by (simp add: out)
  ultimately show ?thesis
    using per unfolding settle_def by blast
qed

theorem discoverMcpTools_isolates_failures_witness:
  "distinct (map fst three_servers)
   \<and> populateMcpServerCommand example_platform three_servers None = Inr three_servers
   \<and> fst (discoverMcpTools example_platform three_remotes [2, 0, 1, 1, 5, 0] three_servers None
            initial_state) = Resolved ()
   \<and> mcpDiscoveryState (snd (discoverMcpTools example_platform three_remotes [2, 0, 1, 1, 5, 0]
            three_servers None initial_state)) = COMPLETED
   \<and> mcpServerStatusesInternal (snd (discoverMcpTools example_platform three_remotes
            [2, 0, 1, 1, 5, 0] three_servers None initial_state)) ''A'' = Some DISCONNECTED
   \<and> mcpServerStatusesInternal (snd (discoverMcpTools example_platform three_remotes
            [2, 0, 1, 1, 5, 0] three_servers None initial_state)) ''B'' = Some CONNECTED
   \<and> RegisterToolCalled (read_tool ''B'') \<in> set (trace (snd (discoverMcpTools example_platform
            three_remotes [2, 0, 1, 1, 5, 0] three_servers None initial_state)))
   \<and> RegisterToolCalled (read_tool ''C'') \<in> set (trace (snd (discoverMcpTools example_platform
            three_remotes [2, 0, 1, 1, 5, 0] three_servers None initial_state)))"
proof -
  let ?r = "discoverMcpTools example_platform three_remotes [2, 0, 1, 1, 5, 0] three_servers None
              initial_state"
  have d: "distinct (map fst three_servers)"
    by (simp add: three_servers_def)
  have p: "populateMcpServerCommand example_platform three_servers None = Inr three_servers"
    by (simp add: populateMcpServerCommand_def)
  have errA: "pipeline_error example_platform (three_remotes ''A'') ''A''
               (no_config\<lparr> url := Some ''http://a/sse'' \<rparr>)
             = Some (Error (conciseError ''A'' (Error ''Request timed out'')))"
    by (simp add: pipeline_error_def connectToMcpServer_outcome createTransport_def new_URL_def
        example_platform_def no_config_def three_remotes_def timing_out_def startsWith_def)
  have toolsB: "pipeline_tools example_platform (three_remotes ''B'') ''B''
               (no_config\<lparr> command := Some ''npx'' \<rparr>)
             = Some (map (new_DiscoveredMCPTool (new_Client ''B'' (no_config\<lparr> command := Some ''npx'' \<rparr>))
                        ''B'' (no_config\<lparr> command := Some ''npx'' \<rparr>))
                     (map functionDeclaration three_tools))"
    by (simp add: pipeline_tools_def connectToMcpServer_outcome discoverTools_outcome
        createTransport_def example_platform_def no_config_def three_remotes_def
        remote_listing_def three_tools_def functionDeclaration_def isEnabled_def)
  have toolsC: "pipeline_tools example_platform (three_remotes ''C'') ''C''
               (no_config\<lparr> httpUrl := Some ''http://c/mcp'', excludeTools := Some [''drop''] \<rparr>)
             \<noteq> None \<and> read_tool ''C'' \<in> set (the (pipeline_tools example_platform (three_remotes ''C'') ''C''
               (no_config\<lparr> httpUrl := Some ''http://c/mcp'', excludeTools := Some [''drop''] \<rparr>)))"
    by (simp add: pipeline_tools_def connectToMcpServer_outcome discoverTools_outcome
        createTransport_def new_URL_def startsWith_def example_platform_def no_config_def
        three_remotes_def
        remote_listing_def three_tools_def functionDeclaration_def isEnabled_def read_tool_def
        new_DiscoveredMCPTool_def new_Client_def timeout_or_default_def MCP_DEFAULT_TIMEOUT_MSEC_def)
  have settle: "\<forall>(n, cfg) \<in> set three_servers.
                  snd (connectAndDiscover example_platform (three_remotes n) n cfg) \<noteq> Never"
    by (simp add: three_servers_def connectAndDiscover_settles connectToMcpServer_outcome
        discoverTools_outcome createTransport_def new_URL_def startsWith_def example_platform_def
        no_config_def three_remotes_def remote_listing_def timing_out_def three_tools_def
        functionDeclaration_def isEnabled_def)
  have rB: "read_tool ''B'' \<in> set (map (new_DiscoveredMCPTool (new_Client ''B'' (no_config\<lparr> command := Some ''npx'' \<rparr>))
                        ''B'' (no_config\<lparr> command := Some ''npx'' \<rparr>))
                     (map functionDeclaration three_tools))"
    by (simp add: read_tool_def three_tools_def functionDeclaration_def new_DiscoveredMCPTool_def
        new_Client_def timeout_or_default_def MCP_DEFAULT_TIMEOUT_MSEC_def no_config_def)
  from discoverMcpTools_isolates_failures [OF d p, of three_remotes "[2, 0, 1, 1, 5, 0]"
      initial_state "fst ?r" "snd ?r"]
  show ?thesis
    using d p errA toolsB toolsC settle rB
    by (auto simp: three_servers_def)
qed

subsection \<open>Invoking a tool\<close>

lemma execute_request:
  "fst (execute reply tool params) =
     [Emit (ClientRequest (client_of (tool_client tool)) ''tools/call''
        ((case tool_name tool of None \<Rightarrow> [] | Some w \<Rightarrow> [(''name'', JStr w)])
           @ [(''arguments'', params)]) None)]"
  by (cases reply) (simp_all add: execute_def mcpToTool_execute_def resolve_def reject_def)

text \<open>
  Claim C6, at a descriptor with a timeout of one second. The tool carries that
  timeout and the replaced \<open>callTool\<close> would pass it on, but \<open>execute\<close> goes through
  \<^verbatim>\<open>mcpClient.request\<close> with no options: the request has no timeout of its own and the
  runtime applies its default, here 60 seconds.
\<close>

theorem execute_ignores_descriptor_timeout:
  "tool_timeout slow_tool = 1000
   \<and> opt_timeout (callTool_options (tool_client slow_tool) None) = Some 1000
   \<and> execute Never slow_tool (JObj []) =
       ([Emit (ClientRequest ''srv'' ''tools/call''
                 [(''name'', JStr ''slow''), (''arguments'', JObj [])] None)], Never)
   \<and> request_timeout 60000 None = 60000"
  by (simp add: slow_tool_def slow_config_def new_DiscoveredMCPTool_def new_Client_def
      fd_named_def no_config_def timeout_or_default_def callTool_options_def execute_def
      mcpToTool_execute_def request_timeout_def resolve_def)

end
